theory Spec2Isabelle
  imports Complex_Main
begin

text \<open>
  A shallow embedding of the blackjack decision engine: the domain primitives
  (\<^verbatim>\<open>src/core\<close>), the State Manager (\<^verbatim>\<open>src/state/manager.py\<close>), the strategy lookup,
  deviation engine and strategy engine (\<^verbatim>\<open>src/strategy\<close>), the betting engine
  (\<^verbatim>\<open>src/betting\<close>) and the simulation driver (\<^verbatim>\<open>interfaces/simulator.py\<close>).

  Python \<^verbatim>\<open>int\<close> is \<^typ>\<open>int\<close>. Python \<^verbatim>\<open>float\<close> is idealised as \<^typ>\<open>real\<close>: comparisons,
  \<^verbatim>\<open>min\<close>, \<^verbatim>\<open>max\<close> and the branch structure are as in the source, the binary rounding
  error of the individual float operations is not modelled. Exceptions are values of
  the type \<open>py_error\<close>, returned on the left of a sum.
\<close>

section \<open>Python helpers\<close>

datatype py_error = ValueError | IndexError | ZeroDivisionError | RuntimeError

text \<open>Sequencing of two computations that may raise.\<close>

definition err_bind :: "py_error + 'a \<Rightarrow> ('a \<Rightarrow> py_error + 'b) \<Rightarrow> py_error + 'b" where
  "err_bind m f = (case m of Inl e \<Rightarrow> Inl e | Inr x \<Rightarrow> f x)"

text \<open>\<^verbatim>\<open>str(n)\<close> and the f-string rendering \<^verbatim>\<open>{n}\<close> of an integer: its decimal digits,
  after a minus sign when it is negative.\<close>

definition digit_char :: "nat \<Rightarrow> char" where
  "digit_char d = ''0123456789'' ! d"

function str_nat :: "nat \<Rightarrow> string" where
  "str_nat n = (if n < 10 then [digit_char n] else str_nat (n div 10) @ [digit_char (n mod 10)])"
  by pat_completeness auto
termination
  by (relation "measure id") auto

declare str_nat.simps [simp del]

definition py_str_int :: "int \<Rightarrow> string" where
  "py_str_int i = (if i < 0 then CHR ''-'' # str_nat (nat (- i)) else str_nat (nat i))"

text \<open>The rendering \<^verbatim>\<open>{n:02d}\<close>: padded with zeros on the left to two characters.\<close>

definition py_fmt_02d :: "int \<Rightarrow> string" where
  "py_fmt_02d i =
     (let s = py_str_int i in replicate (2 - length s) CHR ''0'' @ s)"

text \<open>\<^verbatim>\<open>str.upper()\<close> on ASCII text.\<close>

definition py_upper_char :: "char \<Rightarrow> char" where
  "py_upper_char c =
     (case map_of (zip ''abcdefghijklmnopqrstuvwxyz'' ''ABCDEFGHIJKLMNOPQRSTUVWXYZ'') c of
        None \<Rightarrow> c
      | Some u \<Rightarrow> u)"

definition py_upper :: "string \<Rightarrow> string" where
  "py_upper s = map py_upper_char s"

text \<open>\<^verbatim>\<open>round(x)\<close> on a float: the nearest integer, ties to the even one.\<close>

definition py_round :: "real \<Rightarrow> int" where
  "py_round x =
     (let f = \<lfloor>x\<rfloor>; d = x - of_int f
      in if d < 1 / 2 then f
         else if 1 / 2 < d then f + 1
         else if even f then f else f + 1)"

text \<open>\<^verbatim>\<open>round(x, 2)\<close>: the nearest multiple of one hundredth, ties to even.\<close>

definition py_round2 :: "real \<Rightarrow> real" where
  "py_round2 x = of_int (py_round (x * 100)) / 100"

section \<open>Core types (\<^verbatim>\<open>src/core/types.py\<close>)\<close>

datatype Rank = TWO | THREE | FOUR | FIVE | SIX | SEVEN | EIGHT | NINE | TEN
  | JACK | QUEEN | KING | ACE

text \<open>The \<^verbatim>\<open>.value\<close> of the enum member.\<close>

fun rank_value :: "Rank \<Rightarrow> int" where
  "rank_value TWO = 2"
| "rank_value THREE = 3"
| "rank_value FOUR = 4"
| "rank_value FIVE = 5"
| "rank_value SIX = 6"
| "rank_value SEVEN = 7"
| "rank_value EIGHT = 8"
| "rank_value NINE = 9"
| "rank_value TEN = 10"
| "rank_value JACK = 11"
| "rank_value QUEEN = 12"
| "rank_value KING = 13"
| "rank_value ACE = 14"

definition blackjack_value :: "Rank \<Rightarrow> int" where
  "blackjack_value r =
     (if rank_value r \<le> 10 then rank_value r
      else if rank_value r \<in> {11, 12, 13} then 10
      else 11)"

definition rank_hilo_tag :: "Rank \<Rightarrow> int" where
  "rank_hilo_tag r =
     (if rank_value r \<in> {2, 3, 4, 5, 6} then 1
      else if rank_value r \<ge> 10 then - 1
      else 0)"

datatype Suit = HEARTS | DIAMONDS | CLUBS | SPADES

datatype Action = STAND | HIT | DOUBLE | SPLIT | SURRENDER

datatype HandType = HARD | SOFT | PAIR

text \<open>The \<^verbatim>\<open>.value\<close> of a \<^verbatim>\<open>HandType\<close> member: the letter used in lookup keys.\<close>

fun hand_type_value :: "HandType \<Rightarrow> string" where
  "hand_type_value HARD = ''H''"
| "hand_type_value SOFT = ''S''"
| "hand_type_value PAIR = ''P''"

datatype DeviationDirection = ABOVE_OR_EQUAL | BELOW

record GameState =
  true_count :: real
  cards_remaining :: int
  running_count :: int
  decks_remaining :: real
  penetration :: real

section \<open>Card and Hand (\<^verbatim>\<open>src/core/primitives.py\<close>)\<close>

record Card =
  rank :: Rank
  suit :: Suit

definition card_value :: "Card \<Rightarrow> int" where
  "card_value c = blackjack_value (rank c)"

definition hilo_tag :: "Card \<Rightarrow> int" where
  "hilo_tag c = rank_hilo_tag (rank c)"

definition is_ace :: "Card \<Rightarrow> bool" where
  "is_ace c = (rank c = ACE)"

record Hand =
  cards :: "Card list"
  is_pair :: bool
  is_soft :: bool
  total :: int

text \<open>The loop of \<^verbatim>\<open>from_cards\<close> that turns aces from 11 into 1 while the hand is bust.\<close>

fun reduce_aces :: "int \<Rightarrow> nat \<Rightarrow> int \<times> nat" where
  "reduce_aces t 0 = (t, 0)"
| "reduce_aces t (Suc n) = (if t > 21 then reduce_aces (t - 10) n else (t, Suc n))"

text \<open>\<^verbatim>\<open>Hand.from_cards\<close>, with the check of \<^verbatim>\<open>__post_init__\<close> on the total.\<close>

definition from_cards :: "Card list \<Rightarrow> py_error + Hand" where
  "from_cards cs =
     (if cs = [] then Inl ValueError
      else
        let (t, aces_as_eleven) =
              reduce_aces (sum_list (map card_value cs)) (length (filter is_ace cs));
            soft = (aces_as_eleven > 0 \<and> t \<le> 21);
            pair = (length cs = 2 \<and> rank (cs ! 0) = rank (cs ! 1))
        in if t < 2 \<or> t > 31 then Inl ValueError
           else Inr \<lparr>cards = cs, is_pair = pair, is_soft = soft, total = t\<rparr>)"

definition hand_type :: "Hand \<Rightarrow> HandType" where
  "hand_type h = (if is_pair h then PAIR else if is_soft h then SOFT else HARD)"

text \<open>\<^verbatim>\<open>Hand.pair_value\<close> raises on a hand that is not a pair; \<^verbatim>\<open>cards[0]\<close> raises on
  a hand without cards.\<close>

definition pair_value :: "Hand \<Rightarrow> py_error + int" where
  "pair_value h =
     (if \<not> is_pair h then Inl ValueError
      else case cards h of
          [] \<Rightarrow> Inl IndexError
        | c # _ \<Rightarrow> Inr (if rank c = ACE then 11 else blackjack_value (rank c)))"

definition is_blackjack :: "Hand \<Rightarrow> bool" where
  "is_blackjack h = (length (cards h) = 2 \<and> total h = 21)"

definition add_card :: "Hand \<Rightarrow> Card \<Rightarrow> py_error + Hand" where
  "add_card h c = from_cards (cards h @ [c])"

text \<open>The dealer value used in every key: \<^verbatim>\<open>dealer_up.value if not dealer_up.is_ace else 11\<close>.\<close>

definition dealer_value_of :: "Card \<Rightarrow> int" where
  "dealer_value_of dealer_up = (if \<not> is_ace dealer_up then card_value dealer_up else 11)"

section \<open>State Manager (\<^verbatim>\<open>src/state/manager.py\<close>)\<close>

record GameRules_state =
  num_decks :: int
  cards_per_deck :: int
  cut_penetration :: real

definition total_cards :: "GameRules_state \<Rightarrow> int" where
  "total_cards r = num_decks r * cards_per_deck r"

record StateManager =
  sm_rules :: GameRules_state
  sm_running_count :: int
  sm_cards_seen :: int
  sm_observed_cards :: "Card list"

definition StateManager_init :: "GameRules_state \<Rightarrow> StateManager" where
  "StateManager_init r =
     \<lparr>sm_rules = r, sm_running_count = 0, sm_cards_seen = 0, sm_observed_cards = []\<rparr>"

fun observe :: "StateManager \<Rightarrow> Card list \<Rightarrow> StateManager" where
  "observe sm [] = sm"
| "observe sm (c # rest) =
     observe (sm\<lparr>sm_running_count := sm_running_count sm + hilo_tag c,
                 sm_cards_seen := sm_cards_seen sm + 1,
                 sm_observed_cards := sm_observed_cards sm @ [c]\<rparr>) rest"

definition observe_card :: "StateManager \<Rightarrow> Card \<Rightarrow> StateManager" where
  "observe_card sm c = observe sm [c]"

text \<open>\<^verbatim>\<open>_calculate_decks_remaining\<close>: the true division raises when \<^verbatim>\<open>cards_per_deck\<close> is 0.\<close>

definition calculate_decks_remaining :: "StateManager \<Rightarrow> py_error + real" where
  "calculate_decks_remaining sm =
     (let remaining = total_cards (sm_rules sm) - sm_cards_seen sm
      in if cards_per_deck (sm_rules sm) = 0 then Inl ZeroDivisionError
         else Inr (max (1 / 2) (of_int remaining / of_int (cards_per_deck (sm_rules sm)))))"

text \<open>\<^verbatim>\<open>_calculate_true_count\<close>.\<close>

definition calculate_true_count :: "StateManager \<Rightarrow> real \<Rightarrow> py_error + real" where
  "calculate_true_count sm decks =
     (if decks = 0 then Inl ZeroDivisionError else Inr (of_int (sm_running_count sm) / decks))"

definition get_metrics :: "StateManager \<Rightarrow> py_error + GameState" where
  "get_metrics sm =
     (case calculate_decks_remaining sm of
        Inl e \<Rightarrow> Inl e
      | Inr decks \<Rightarrow>
          (case calculate_true_count sm decks of
             Inl e \<Rightarrow> Inl e
           | Inr tc \<Rightarrow>
               Inr \<lparr>true_count = tc,
                    cards_remaining = total_cards (sm_rules sm) - sm_cards_seen sm,
                    running_count = sm_running_count sm,
                    decks_remaining = decks,
                    penetration =
                      (if total_cards (sm_rules sm) > 0
                       then of_int (sm_cards_seen sm) / of_int (total_cards (sm_rules sm))
                       else 0)\<rparr>))"

text \<open>\<^verbatim>\<open>reset(rules=None, burn_count=0)\<close>.\<close>

definition reset :: "StateManager \<Rightarrow> GameRules_state option \<Rightarrow> int \<Rightarrow> StateManager" where
  "reset sm new_rules burn_count =
     \<lparr>sm_rules = (case new_rules of None \<Rightarrow> sm_rules sm | Some r \<Rightarrow> r),
      sm_running_count = 0,
      sm_cards_seen = burn_count,
      sm_observed_cards = []\<rparr>"

section \<open>Strategy lookup (\<^verbatim>\<open>src/strategy/lookup.py\<close>)\<close>

type_synonym strategy_table = "string \<rightharpoonup> string"

text \<open>\<^verbatim>\<open>StrategyLookup._action_map\<close>, with the keys as the source spells them.\<close>

definition action_map :: "string \<rightharpoonup> Action" where
  "action_map = map_of
     [(''STAND'', STAND), (''HIT'', HIT), (''DOUBLE'', DOUBLE), (''SPLIT'', SPLIT),
      (''SURRENDER'', SURRENDER),
      (''Ds'', DOUBLE), (''Dh'', DOUBLE),
      (''Rh'', SURRENDER), (''Rs'', SURRENDER), (''Rp'', SURRENDER),
      (''Ph'', SPLIT), (''Pd'', SPLIT)]"

definition generate_key :: "Hand \<Rightarrow> Card \<Rightarrow> py_error + string" where
  "generate_key hand dealer_up =
     (let ht = hand_type_value (hand_type hand);
          dealer_value = dealer_value_of dealer_up
      in if is_pair hand
         then err_bind (pair_value hand)
                (\<lambda>v. Inr (ht @ ''_'' @ py_fmt_02d v @ '':'' @ py_fmt_02d dealer_value))
         else Inr (ht @ ''_'' @ py_str_int (total hand) @ '':'' @ py_fmt_02d dealer_value))"

definition generate_alt_key :: "Hand \<Rightarrow> Card \<Rightarrow> py_error + string" where
  "generate_alt_key hand dealer_up =
     (let ht = hand_type_value (hand_type hand);
          dealer_value = dealer_value_of dealer_up
      in err_bind (if is_pair hand then pair_value hand else Inr (total hand))
           (\<lambda>v. Inr (ht @ ''_'' @ py_str_int v @ '':'' @ py_str_int dealer_value)))"

text \<open>\<^verbatim>\<open>StrategyLookup.lookup\<close>: the primary key, then the alternative key, then the
  action map applied to the upper-cased token.\<close>

definition lookup :: "strategy_table \<Rightarrow> Hand \<Rightarrow> Card \<Rightarrow> py_error + Action option" where
  "lookup tbl hand dealer_up =
     err_bind (generate_key hand dealer_up) (\<lambda>key.
       case tbl key of
         Some action_str \<Rightarrow> Inr (action_map (py_upper action_str))
       | None \<Rightarrow>
           err_bind (generate_alt_key hand dealer_up) (\<lambda>alt_key.
             case tbl alt_key of
               None \<Rightarrow> Inr None
             | Some action_str \<Rightarrow> Inr (action_map (py_upper action_str))))"

section \<open>Deviations (\<^verbatim>\<open>src/strategy/deviations.py\<close>)\<close>

record DeviationTrigger =
  trig_hand_type :: HandType
  trig_value :: int
  trig_dealer_up :: int

record DeviationRule =
  threshold :: real
  direction :: DeviationDirection
  rule_action :: Action

record Deviation =
  dev_id :: string
  trigger :: DeviationTrigger
  rule :: DeviationRule
  priority :: int

text \<open>\<^verbatim>\<open>Deviation.matches_hand\<close>. The \<^verbatim>\<open>and\<close> of the pair branch reads
  \<^verbatim>\<open>pair_value\<close> only on a pair.\<close>

definition matches_hand :: "Deviation \<Rightarrow> Hand \<Rightarrow> Card \<Rightarrow> py_error + bool" where
  "matches_hand dev hand dealer_up =
     (if dealer_value_of dealer_up \<noteq> trig_dealer_up (trigger dev) then Inr False
      else case trig_hand_type (trigger dev) of
          HARD \<Rightarrow> Inr (\<not> is_soft hand \<and> \<not> is_pair hand \<and> total hand = trig_value (trigger dev))
        | SOFT \<Rightarrow> Inr (is_soft hand \<and> total hand = trig_value (trigger dev))
        | PAIR \<Rightarrow>
            (if is_pair hand
             then err_bind (pair_value hand) (\<lambda>v. Inr (v = trig_value (trigger dev)))
             else Inr False))"

definition is_triggered :: "Deviation \<Rightarrow> real \<Rightarrow> bool" where
  "is_triggered dev tc =
     (if direction (rule dev) = ABOVE_OR_EQUAL then tc \<ge> threshold (rule dev)
      else tc < threshold (rule dev))"

definition get_action :: "Deviation \<Rightarrow> Action" where
  "get_action dev = rule_action (rule dev)"

text \<open>The index key \<^verbatim>\<open>f"{hand_type.value}_{value}_{dealer}"\<close>.\<close>

definition index_key :: "HandType \<Rightarrow> int \<Rightarrow> int \<Rightarrow> string" where
  "index_key ht v d = hand_type_value ht @ ''_'' @ py_str_int v @ ''_'' @ py_str_int d"

definition deviation_key :: "Deviation \<Rightarrow> string" where
  "deviation_key dev =
     index_key (trig_hand_type (trigger dev)) (trig_value (trigger dev))
       (trig_dealer_up (trigger dev))"

text \<open>\<^verbatim>\<open>_rebuild_index\<close>: the first loop appends every deviation to the list under its
  key; the second sorts every list by priority, highest first (the sort of Python is
  stable, also with \<^verbatim>\<open>reverse=True\<close>).\<close>

fun index_append :: "(string \<rightharpoonup> Deviation list) \<Rightarrow> Deviation list \<Rightarrow> (string \<rightharpoonup> Deviation list)" where
  "index_append idx [] = idx"
| "index_append idx (dev # rest) =
     index_append
       (idx(deviation_key dev \<mapsto>
          (case idx (deviation_key dev) of None \<Rightarrow> [] | Some l \<Rightarrow> l) @ [dev]))
       rest"

definition sort_by_priority :: "Deviation list \<Rightarrow> Deviation list" where
  "sort_by_priority l = sort_key (\<lambda>d. - priority d) l"

definition rebuild_index :: "Deviation list \<Rightarrow> (string \<rightharpoonup> Deviation list)" where
  "rebuild_index devs = (\<lambda>key. map_option sort_by_priority (index_append Map.empty devs key))"

record DeviationEngine =
  deviations :: "Deviation list"
  index :: "string \<rightharpoonup> Deviation list"

definition DeviationEngine_init :: "Deviation list \<Rightarrow> DeviationEngine" where
  "DeviationEngine_init devs = \<lparr>deviations = devs, index = rebuild_index devs\<rparr>"

text \<open>The lookup key of \<^verbatim>\<open>check_deviation\<close>: pair before soft before hard.\<close>

definition hand_index_key :: "Hand \<Rightarrow> Card \<Rightarrow> py_error + string" where
  "hand_index_key hand dealer_up =
     (let dealer_value = dealer_value_of dealer_up
      in if is_pair hand
         then err_bind (pair_value hand) (\<lambda>v. Inr (index_key PAIR v dealer_value))
         else if is_soft hand then Inr (index_key SOFT (total hand) dealer_value)
         else Inr (index_key HARD (total hand) dealer_value))"

text \<open>The loop over the candidates: the first one that is triggered decides.\<close>

fun first_triggered :: "Deviation list \<Rightarrow> real \<Rightarrow> Action option" where
  "first_triggered [] tc = None"
| "first_triggered (dev # rest) tc =
     (if is_triggered dev tc then Some (get_action dev) else first_triggered rest tc)"

definition check_deviation ::
  "DeviationEngine \<Rightarrow> Hand \<Rightarrow> Card \<Rightarrow> GameState \<Rightarrow> py_error + Action option" where
  "check_deviation eng hand dealer_up metrics =
     err_bind (hand_index_key hand dealer_up) (\<lambda>key.
       let candidates = (case index eng key of None \<Rightarrow> [] | Some l \<Rightarrow> l)
       in Inr (first_triggered candidates (true_count metrics)))"

definition check_surrender_deviation ::
  "DeviationEngine \<Rightarrow> Hand \<Rightarrow> Card \<Rightarrow> GameState \<Rightarrow> py_error + Action option" where
  "check_surrender_deviation eng hand dealer_up metrics =
     err_bind (check_deviation eng hand dealer_up metrics) (\<lambda>a.
       if a = Some SURRENDER then Inr a else Inr None)"

definition mk_deviation ::
  "string \<Rightarrow> HandType \<Rightarrow> int \<Rightarrow> int \<Rightarrow> real \<Rightarrow> DeviationDirection \<Rightarrow> Action \<Rightarrow> int \<Rightarrow> Deviation" where
  "mk_deviation i ht v d thr dir act prio =
     \<lparr>dev_id = i,
      trigger = \<lparr>trig_hand_type = ht, trig_value = v, trig_dealer_up = d\<rparr>,
      rule = \<lparr>threshold = thr, direction = dir, rule_action = act\<rparr>,
      priority = prio\<rparr>"

definition ILLUSTRIOUS_18 :: "Deviation list" where
  "ILLUSTRIOUS_18 =
     [mk_deviation ''ILL_16v10'' HARD 16 10 0 ABOVE_OR_EQUAL STAND 1,
      mk_deviation ''ILL_15v10'' HARD 15 10 4 ABOVE_OR_EQUAL STAND 2,
      mk_deviation ''ILL_20vA'' PAIR 10 11 6 ABOVE_OR_EQUAL SPLIT 3,
      mk_deviation ''ILL_10v10'' HARD 10 10 4 ABOVE_OR_EQUAL DOUBLE 4,
      mk_deviation ''ILL_12v3'' HARD 12 3 2 ABOVE_OR_EQUAL STAND 5,
      mk_deviation ''ILL_12v2'' HARD 12 2 3 ABOVE_OR_EQUAL STAND 6,
      mk_deviation ''ILL_11vA'' HARD 11 11 1 ABOVE_OR_EQUAL DOUBLE 7,
      mk_deviation ''ILL_9v2'' HARD 9 2 1 ABOVE_OR_EQUAL DOUBLE 8,
      mk_deviation ''ILL_10vA'' HARD 10 11 4 ABOVE_OR_EQUAL DOUBLE 9,
      mk_deviation ''ILL_9v7'' HARD 9 7 3 ABOVE_OR_EQUAL DOUBLE 10,
      mk_deviation ''ILL_16v9'' HARD 16 9 5 ABOVE_OR_EQUAL STAND 11,
      mk_deviation ''ILL_13v2'' HARD 13 2 (- 1) BELOW HIT 12,
      mk_deviation ''ILL_12v4'' HARD 12 4 0 BELOW HIT 13,
      mk_deviation ''ILL_12v5'' HARD 12 5 (- 2) BELOW HIT 14,
      mk_deviation ''ILL_12v6'' HARD 12 6 (- 1) BELOW HIT 15,
      mk_deviation ''ILL_13v3'' HARD 13 3 (- 2) BELOW HIT 16]"

definition FAB_4 :: "Deviation list" where
  "FAB_4 =
     [mk_deviation ''FAB_15v10'' HARD 15 10 0 ABOVE_OR_EQUAL SURRENDER 100,
      mk_deviation ''FAB_15vA'' HARD 15 11 1 ABOVE_OR_EQUAL SURRENDER 101,
      mk_deviation ''FAB_14v10'' HARD 14 10 3 ABOVE_OR_EQUAL SURRENDER 102,
      mk_deviation ''FAB_15v9'' HARD 15 9 2 ABOVE_OR_EQUAL SURRENDER 103]"

definition create_standard_deviation_engine :: DeviationEngine where
  "create_standard_deviation_engine = DeviationEngine_init (ILLUSTRIOUS_18 @ FAB_4)"

section \<open>Strategy engine (\<^verbatim>\<open>src/strategy/engine.py\<close>)\<close>

record DecisionResult =
  action :: Action
  baseline_action :: Action
  deviation_id :: "string option"
  decision_true_count :: real

text \<open>The property \<^verbatim>\<open>DecisionResult.deviated\<close>.\<close>

definition deviated :: "DecisionResult \<Rightarrow> bool" where
  "deviated r = (action r \<noteq> baseline_action r)"

record RuleConfig =
  dealer_stands_soft_17 :: bool
  double_after_split :: bool
  surrender_allowed :: bool
  config_num_decks :: int
  rule_set_name :: string
  deviation_threshold_margin :: real

text \<open>The engine after \<^verbatim>\<open>__init__\<close>: its configuration, the table behind its
  \<^verbatim>\<open>StrategyLookup\<close> (read from the strategy file, or the in-memory fallback table when
  the file is missing) and its deviation engine.\<close>

record StrategyEngine =
  config :: RuleConfig
  strategy_tbl :: strategy_table
  deviation_engine :: DeviationEngine

text \<open>\<^verbatim>\<open>_get_fallback_strategy\<close>: the table used when no strategy file is found.\<close>

definition get_fallback_strategy :: strategy_table where
  "get_fallback_strategy = map_of
     [(''H_17:02'', ''STAND''), (''H_17:07'', ''STAND''), (''H_17:10'', ''STAND''),
      (''H_16:02'', ''STAND''), (''H_16:07'', ''HIT''), (''H_16:10'', ''HIT''),
      (''H_15:02'', ''STAND''), (''H_15:07'', ''HIT''), (''H_15:10'', ''HIT''),
      (''H_14:02'', ''STAND''), (''H_14:07'', ''HIT''), (''H_14:10'', ''HIT''),
      (''H_13:02'', ''STAND''), (''H_13:07'', ''HIT''), (''H_13:10'', ''HIT''),
      (''H_12:02'', ''HIT''), (''H_12:04'', ''STAND''), (''H_12:07'', ''HIT''),
      (''H_11:02'', ''DOUBLE''), (''H_11:10'', ''DOUBLE''), (''H_11:11'', ''HIT''),
      (''H_10:02'', ''DOUBLE''), (''H_10:10'', ''HIT''), (''H_10:11'', ''HIT''),
      (''H_9:02'', ''HIT''), (''H_9:03'', ''DOUBLE''), (''H_9:07'', ''HIT''),
      (''S_20:02'', ''STAND''), (''S_20:10'', ''STAND''),
      (''S_19:02'', ''STAND''), (''S_19:06'', ''DOUBLE''), (''S_19:10'', ''STAND''),
      (''S_18:02'', ''STAND''), (''S_18:09'', ''HIT''), (''S_18:10'', ''HIT''),
      (''S_17:02'', ''HIT''), (''S_17:03'', ''DOUBLE''), (''S_17:07'', ''HIT''),
      (''P_11:02'', ''SPLIT''), (''P_11:10'', ''SPLIT''),
      (''P_10:02'', ''STAND''), (''P_10:10'', ''STAND''),
      (''P_08:02'', ''SPLIT''), (''P_08:10'', ''SPLIT'')]"

definition validate_action :: "Action \<Rightarrow> Hand \<Rightarrow> Action" where
  "validate_action a hand =
     (if a = DOUBLE \<and> length (cards hand) > 2 then HIT
      else if a = SPLIT \<and> \<not> is_pair hand then HIT
      else if a = SURRENDER \<and> length (cards hand) > 2 then HIT
      else a)"

definition calculate_fallback_action :: "Hand \<Rightarrow> Card \<Rightarrow> Action" where
  "calculate_fallback_action hand dealer_up =
     (let t = total hand; dealer_value = dealer_value_of dealer_up
      in if \<not> is_soft hand then
           (if t \<ge> 17 then STAND
            else if t \<ge> 13 \<and> dealer_value \<le> 6 then STAND
            else if t = 12 \<and> 4 \<le> dealer_value \<and> dealer_value \<le> 6 then STAND
            else if t = 11 then (if length (cards hand) = 2 then DOUBLE else HIT)
            else if t = 10 \<and> dealer_value \<le> 9 then (if length (cards hand) = 2 then DOUBLE else HIT)
            else if t = 9 \<and> 3 \<le> dealer_value \<and> dealer_value \<le> 6
              then (if length (cards hand) = 2 then DOUBLE else HIT)
            else HIT)
         else
           (if t \<ge> 19 then STAND
            else if t = 18 then (if dealer_value \<ge> 9 then HIT else STAND)
            else HIT))"

definition get_baseline_action :: "StrategyEngine \<Rightarrow> Hand \<Rightarrow> Card \<Rightarrow> py_error + Action" where
  "get_baseline_action eng hand dealer_up =
     err_bind (lookup (strategy_tbl eng) hand dealer_up) (\<lambda>found.
       case found of
         Some a \<Rightarrow> Inr (validate_action a hand)
       | None \<Rightarrow> Inr (calculate_fallback_action hand dealer_up))"

text \<open>\<^verbatim>\<open>_get_triggered_deviation_id\<close>: the descriptive id \<^verbatim>\<open>DEV_{hand}v{dealer}\<close>.\<close>

definition get_triggered_deviation_id :: "Hand \<Rightarrow> Card \<Rightarrow> py_error + string" where
  "get_triggered_deviation_id hand dealer_up =
     err_bind
       (if is_pair hand then err_bind (pair_value hand) (\<lambda>v. Inr (''P'' @ py_str_int v))
        else if is_soft hand then Inr (''S'' @ py_str_int (total hand))
        else Inr (''H'' @ py_str_int (total hand)))
       (\<lambda>hand_desc. Inr (''DEV_'' @ hand_desc @ ''v'' @ py_str_int (dealer_value_of dealer_up)))"

text \<open>The snapshot that \<^verbatim>\<open>_check_deviation_with_margin\<close> hands to the deviation engine:
  the true count less the margin; the penetration is left at the default of
  \<^verbatim>\<open>GameState\<close>.\<close>

definition adjusted_metrics :: "GameState \<Rightarrow> real \<Rightarrow> GameState" where
  "adjusted_metrics metrics margin =
     \<lparr>true_count = true_count metrics - margin,
      cards_remaining = cards_remaining metrics,
      running_count = running_count metrics,
      decks_remaining = decks_remaining metrics,
      penetration = 0\<rparr>"

definition check_deviation_with_margin ::
  "StrategyEngine \<Rightarrow> Hand \<Rightarrow> Card \<Rightarrow> GameState \<Rightarrow> real \<Rightarrow> bool
     \<Rightarrow> py_error + (string \<times> Action) option" where
  "check_deviation_with_margin eng hand dealer_up metrics margin surrender_only =
     (if surrender_only then
        err_bind (check_surrender_deviation (deviation_engine eng) hand dealer_up
                    (adjusted_metrics metrics margin)) (\<lambda>found.
          case found of
            Some a \<Rightarrow> err_bind (get_triggered_deviation_id hand dealer_up) (\<lambda>i. Inr (Some (i, a)))
          | None \<Rightarrow> Inr None)
      else
        err_bind (check_deviation (deviation_engine eng) hand dealer_up
                    (adjusted_metrics metrics margin)) (\<lambda>found.
          case found of
            Some a \<Rightarrow>
              (if a \<noteq> SURRENDER
               then err_bind (get_triggered_deviation_id hand dealer_up) (\<lambda>i. Inr (Some (i, a)))
               else Inr None)
          | None \<Rightarrow> Inr None))"

definition decide_split_with_context ::
  "StrategyEngine \<Rightarrow> Hand \<Rightarrow> Card \<Rightarrow> GameState \<Rightarrow> real \<Rightarrow> py_error + (string \<times> Action) option" where
  "decide_split_with_context eng hand dealer_up metrics margin =
     err_bind (check_deviation_with_margin eng hand dealer_up metrics margin False) (\<lambda>result.
       case result of
         Some (i, a) \<Rightarrow> (if a = SPLIT then Inr (Some (i, a)) else Inr None)
       | None \<Rightarrow> Inr None)"

text \<open>Step 1 of \<^verbatim>\<open>decide_with_context\<close>: the surrender deviations.\<close>

definition surrender_step ::
  "StrategyEngine \<Rightarrow> Hand \<Rightarrow> Card \<Rightarrow> GameState \<Rightarrow> py_error + (string \<times> Action) option" where
  "surrender_step eng hand dealer_up metrics =
     (if surrender_allowed (config eng) \<and> length (cards hand) = 2
      then check_deviation_with_margin eng hand dealer_up metrics
             (deviation_threshold_margin (config eng)) True
      else Inr None)"

text \<open>Step 2: on a pair, a split deviation, then a baseline split. The result is the
  decision returned by this step, if it returns.\<close>

definition split_step ::
  "StrategyEngine \<Rightarrow> Hand \<Rightarrow> Card \<Rightarrow> GameState \<Rightarrow> Action \<Rightarrow> py_error + DecisionResult option" where
  "split_step eng hand dealer_up metrics baseline =
     (if is_pair hand then
        err_bind (decide_split_with_context eng hand dealer_up metrics
                    (deviation_threshold_margin (config eng))) (\<lambda>split_result.
          case split_result of
            Some (i, SPLIT) \<Rightarrow>
              Inr (Some \<lparr>action = SPLIT, baseline_action = baseline, deviation_id = Some i,
                          decision_true_count = true_count metrics\<rparr>)
          | _ \<Rightarrow>
              (if baseline = SPLIT
               then Inr (Some \<lparr>action = SPLIT, baseline_action = baseline, deviation_id = None,
                                decision_true_count = true_count metrics\<rparr>)
               else Inr None))
      else Inr None)"

text \<open>\<^verbatim>\<open>decide_with_context\<close>: the baseline first, then the three steps, then the
  baseline.\<close>

definition decide_with_context ::
  "StrategyEngine \<Rightarrow> Hand \<Rightarrow> Card \<Rightarrow> GameState \<Rightarrow> bool \<Rightarrow> py_error + DecisionResult" where
  "decide_with_context eng hand dealer_up metrics use_deviations =
     err_bind (get_baseline_action eng hand dealer_up) (\<lambda>baseline.
       let from_baseline =
             \<lparr>action = baseline, baseline_action = baseline, deviation_id = None,
              decision_true_count = true_count metrics\<rparr>
       in if \<not> use_deviations then Inr from_baseline
          else
            err_bind (surrender_step eng hand dealer_up metrics) (\<lambda>surrender_result.
              case surrender_result of
                Some (i, chosen) \<Rightarrow>
                  Inr \<lparr>action = chosen, baseline_action = baseline, deviation_id = Some i,
                       decision_true_count = true_count metrics\<rparr>
              | None \<Rightarrow>
                  err_bind (split_step eng hand dealer_up metrics baseline) (\<lambda>split_decision.
                    case split_decision of
                      Some r \<Rightarrow> Inr r
                    | None \<Rightarrow>
                        err_bind (check_deviation_with_margin eng hand dealer_up metrics
                                    (deviation_threshold_margin (config eng)) False)
                          (\<lambda>deviation_result.
                            case deviation_result of
                              Some (i, chosen) \<Rightarrow>
                                (if chosen \<noteq> SURRENDER
                                 then Inr \<lparr>action = chosen, baseline_action = baseline,
                                           deviation_id = Some i,
                                           decision_true_count = true_count metrics\<rparr>
                                 else Inr from_baseline)
                            | None \<Rightarrow> Inr from_baseline))))"

definition decide :: "StrategyEngine \<Rightarrow> Hand \<Rightarrow> Card \<Rightarrow> GameState \<Rightarrow> bool \<Rightarrow> py_error + Action" where
  "decide eng hand dealer_up metrics use_deviations =
     err_bind (decide_with_context eng hand dealer_up metrics use_deviations)
       (\<lambda>r. Inr (action r))"

text \<open>The defaults of \<^verbatim>\<open>RuleConfig()\<close>.\<close>

definition RuleConfig_default :: RuleConfig where
  "RuleConfig_default =
     \<lparr>dealer_stands_soft_17 = True, double_after_split = True, surrender_allowed = True,
      config_num_decks = 6, rule_set_name = ''s17_das'', deviation_threshold_margin = 0\<rparr>"

text \<open>\<^verbatim>\<open>StrategyEngine.__init__\<close>. The second argument is the table read from the
  strategy file, \<open>None\<close> when the file is not found; the third is the deviation engine
  passed in, \<open>None\<close> for the standard one.\<close>

definition StrategyEngine_init ::
  "RuleConfig \<Rightarrow> strategy_table option \<Rightarrow> DeviationEngine option \<Rightarrow> StrategyEngine" where
  "StrategyEngine_init rule_config loaded devs =
     \<lparr>config = rule_config,
      strategy_tbl = (case loaded of Some t \<Rightarrow> t | None \<Rightarrow> get_fallback_strategy),
      deviation_engine =
        (case devs of Some d \<Rightarrow> d | None \<Rightarrow> create_standard_deviation_engine)\<rparr>"

definition Card_init :: "Rank \<Rightarrow> Suit \<Rightarrow> Card" where
  "Card_init r s = \<lparr>rank = r, suit = s\<rparr>"

section \<open>Game rules (\<^verbatim>\<open>src/config/loader.py\<close>)\<close>

text \<open>The fields of \<^verbatim>\<open>GameRules\<close> that the betting engine, the state manager and the
  simulator read.\<close>

record GameRules =
  gr_num_decks :: int
  gr_cards_per_deck :: int
  gr_penetration :: real
  gr_dealer_stands_soft_17 :: bool
  gr_double_after_split :: bool
  gr_surrender_allowed :: bool
  gr_double_9_10_11_only :: bool
  gr_double_10_11_only :: bool
  gr_blackjack_pays :: real
  gr_table_min :: real
  gr_table_max :: real

text \<open>The defaults of \<^verbatim>\<open>GameRules()\<close>.\<close>

definition GameRules_default :: GameRules where
  "GameRules_default =
     \<lparr>gr_num_decks = 6, gr_cards_per_deck = 52, gr_penetration = 3 / 4,
      gr_dealer_stands_soft_17 = True, gr_double_after_split = True,
      gr_surrender_allowed = True, gr_double_9_10_11_only = False,
      gr_double_10_11_only = False, gr_blackjack_pays = 3 / 2,
      gr_table_min = 10, gr_table_max = 1000\<rparr>"

section \<open>Kelly sizing (\<^verbatim>\<open>src/betting/kelly.py\<close>)\<close>

record BetLimits =
  table_min :: real
  table_max :: real
  max_bet_spread :: real

definition BetLimits_default :: BetLimits where
  "BetLimits_default = \<lparr>table_min = 10, table_max = 1000, max_bet_spread = 12\<rparr>"

definition clamp :: "BetLimits \<Rightarrow> real \<Rightarrow> real" where
  "clamp limits bet = max (table_min limits) (min (table_max limits) bet)"

record KellyCalculator =
  kelly_fraction :: real
  variance :: real

definition BLACKJACK_VARIANCE :: real where
  "BLACKJACK_VARIANCE = 126 / 100"

definition KellyCalculator_init :: "real \<Rightarrow> real \<Rightarrow> py_error + KellyCalculator" where
  "KellyCalculator_init kf var =
     (if \<not> (0 < kf \<and> kf \<le> 1) then Inl ValueError
      else Inr \<lparr>kelly_fraction = kf, variance = var\<rparr>)"

definition calculate_bet_fraction :: "KellyCalculator \<Rightarrow> real \<Rightarrow> py_error + real" where
  "calculate_bet_fraction k advantage =
     (if advantage \<le> 0 then Inr 0
      else if variance k = 0 then Inl ZeroDivisionError
      else Inr (advantage / variance k * kelly_fraction k))"

definition calculate_bet_amount ::
  "KellyCalculator \<Rightarrow> real \<Rightarrow> real \<Rightarrow> BetLimits option \<Rightarrow> py_error + real" where
  "calculate_bet_amount k advantage bankroll limits_opt =
     (if bankroll \<le> 0 then Inr 0
      else
        let limits = (case limits_opt of Some l \<Rightarrow> l | None \<Rightarrow> BetLimits_default)
        in err_bind (calculate_bet_fraction k advantage) (\<lambda>fraction.
             Inr (min (clamp limits (bankroll * fraction)) bankroll)))"

section \<open>Advantage model (\<^verbatim>\<open>src/betting/estimator.py\<close>)\<close>

record AdvantageModel =
  slope :: real
  baseline_edge :: real

definition AdvantageModel_default :: AdvantageModel where
  "AdvantageModel_default = \<lparr>slope = 5 / 1000, baseline_edge = 5 / 1000\<rparr>"

definition calculate_advantage :: "AdvantageModel \<Rightarrow> real \<Rightarrow> real" where
  "calculate_advantage m tc = tc * slope m - baseline_edge m"

definition from_rules :: "GameRules \<Rightarrow> AdvantageModel" where
  "from_rules rules =
     (let b0 = 4 / 1000;
          b1 = (if \<not> gr_dealer_stands_soft_17 rules then b0 + 22 / 10000 else b0);
          b2 = (if gr_blackjack_pays rules < 14 / 10 then b1 + 139 / 10000 else b1);
          b3 = (if \<not> gr_double_after_split rules then b2 + 14 / 10000 else b2);
          b4 = (if \<not> gr_surrender_allowed rules then b3 + 8 / 10000 else b3);
          b5 = (if gr_double_10_11_only rules then b4 + 18 / 10000
                else if gr_double_9_10_11_only rules then b4 + 9 / 10000
                else b4)
      in \<lparr>slope = 5 / 1000, baseline_edge = b5\<rparr>)"

record EVEstimator =
  model :: AdvantageModel
  deck_adjustment :: bool

definition EVEstimator_init ::
  "AdvantageModel option \<Rightarrow> GameRules option \<Rightarrow> bool \<Rightarrow> EVEstimator" where
  "EVEstimator_init model_opt rules_opt adjust =
     \<lparr>model =
        (case model_opt of
           Some m \<Rightarrow> m
         | None \<Rightarrow> (case rules_opt of Some r \<Rightarrow> from_rules r | None \<Rightarrow> AdvantageModel_default)),
      deck_adjustment = adjust\<rparr>"

text \<open>\<^verbatim>\<open>estimate_advantage\<close>: the division \<^verbatim>\<open>6 / num_decks\<close> raises on 0 decks.\<close>

definition estimate_advantage :: "EVEstimator \<Rightarrow> real \<Rightarrow> int \<Rightarrow> py_error + real" where
  "estimate_advantage est tc n_decks =
     (let base_advantage = calculate_advantage (model est) tc
      in if deck_adjustment est then
           (if n_decks = 0 then Inl ZeroDivisionError
            else
              let deck_factor = 6 / of_int n_decks;
                  adjustment = 1 + (deck_factor - 1) * (1 / 10)
              in Inr (base_advantage * adjustment))
         else Inr base_advantage)"

section \<open>Betting engine (\<^verbatim>\<open>src/betting/engine.py\<close>)\<close>

record BettingConfig =
  bc_kelly_fraction :: real
  bc_table_min :: real
  bc_table_max :: real
  bc_max_spread :: real
  bc_num_decks :: int
  bc_flat_betting :: bool
  bc_max_betting_penetration :: real

definition BettingConfig_default :: BettingConfig where
  "BettingConfig_default =
     \<lparr>bc_kelly_fraction = 1 / 2, bc_table_min = 10, bc_table_max = 1000, bc_max_spread = 12,
      bc_num_decks = 6, bc_flat_betting = False, bc_max_betting_penetration = 85 / 100\<rparr>"

record BettingEngine =
  be_config :: BettingConfig
  be_limits :: BetLimits
  be_kelly :: KellyCalculator
  be_estimator :: EVEstimator

definition BettingEngine_init ::
  "BettingConfig option \<Rightarrow> GameRules option \<Rightarrow> py_error + BettingEngine" where
  "BettingEngine_init config_opt rules_opt =
     (let cfg = (case config_opt of Some c \<Rightarrow> c | None \<Rightarrow> BettingConfig_default)
      in err_bind (KellyCalculator_init (bc_kelly_fraction cfg) BLACKJACK_VARIANCE) (\<lambda>k.
           Inr \<lparr>be_config = cfg,
                be_limits = \<lparr>table_min = bc_table_min cfg, table_max = bc_table_max cfg,
                             max_bet_spread = bc_max_spread cfg\<rparr>,
                be_kelly = k,
                be_estimator = EVEstimator_init None rules_opt True\<rparr>))"

text \<open>The part of \<^verbatim>\<open>compute_bet\<close> after the three early returns (its steps 1 to 5): the
  Kelly-sized amount, capped by the spread and the bankroll, raised to the table minimum,
  rounded to two decimals.\<close>

definition kelly_sized_bet :: "BettingEngine \<Rightarrow> real \<Rightarrow> real \<Rightarrow> py_error + real" where
  "kelly_sized_bet e tc bankroll =
     err_bind (estimate_advantage (be_estimator e) tc (bc_num_decks (be_config e))) (\<lambda>advantage.
       err_bind (calculate_bet_amount (be_kelly e) advantage bankroll (Some (be_limits e))) (\<lambda>bet0.
         let max_bet = table_min (be_limits e) * bc_max_spread (be_config e);
             bet1 = min bet0 max_bet;
             bet = min bet1 bankroll
         in if bet < table_min (be_limits e) then
              (if advantage > 0 \<and> bankroll \<ge> table_min (be_limits e)
               then Inr (table_min (be_limits e))
               else Inr (if bankroll \<ge> table_min (be_limits e) then table_min (be_limits e) else 0))
            else Inr (py_round2 bet)))"

definition compute_bet :: "BettingEngine \<Rightarrow> real \<Rightarrow> real \<Rightarrow> real \<Rightarrow> py_error + real" where
  "compute_bet e tc bankroll pen =
     (if bankroll < table_min (be_limits e) then Inr 0
      else if bc_flat_betting (be_config e) then Inr (table_min (be_limits e))
      else if pen > bc_max_betting_penetration (be_config e) then Inr (table_min (be_limits e))
      else kelly_sized_bet e tc bankroll)"

section \<open>Simulation driver: data (\<^verbatim>\<open>interfaces/simulator.py\<close>)\<close>

text \<open>
  The driver is modelled without its sinks (the flight recorder, the progress output and
  the callback), which do not feed back into the run. Its two random sources are oracles:
  the outcome of the \<open>k\<close>-th shuffle of the shoe's generator, and the raw outcome of the
  \<open>k\<close>-th \<^verbatim>\<open>random.randint\<close>, which is reduced into the requested range.
\<close>

record SimulationResult =
  hands_played :: int
  total_wagered :: real
  total_won :: real
  net_profit :: real
  ev_percent :: real
  win_rate :: real
  average_bet :: real
  max_drawdown :: real
  final_bankroll :: real
  standard_error :: real
  hands_skipped :: int
  hands_by_action :: "Action \<rightharpoonup> int"
  true_count_distribution :: "int \<rightharpoonup> int"
  ev_by_true_count :: "int \<rightharpoonup> real \<times> int"
  wins :: int
  losses :: int
  pushes :: int
  blackjacks :: int
  surrenders :: int
  busts :: int

definition SimulationResult_init :: "real \<Rightarrow> SimulationResult" where
  "SimulationResult_init fb =
     \<lparr>hands_played = 0, total_wagered = 0, total_won = 0, net_profit = 0, ev_percent = 0,
      win_rate = 0, average_bet = 0, max_drawdown = 0, final_bankroll = fb,
      standard_error = 0, hands_skipped = 0, hands_by_action = Map.empty,
      true_count_distribution = Map.empty, ev_by_true_count = Map.empty,
      wins = 0, losses = 0, pushes = 0, blackjacks = 0, surrenders = 0, busts = 0\<rparr>"

record HandResult =
  player_hand :: Hand
  dealer_hand :: Hand
  final_player_total :: int
  final_dealer_total :: int
  actions_taken :: "Action list"
  bet_size :: real
  payout :: real
  net_result :: real
  hand_true_count :: real
  outcome :: string

record SimulatorConfig =
  config_id :: string
  use_counting :: bool
  use_deviations :: bool
  betting_strategy :: string
  log_json :: bool
  wong_out_threshold :: "real option"
  min_hands_per_shoe :: int
  simulate_late_entry :: bool
  late_entry_max_pen :: real

definition SimulatorConfig_default :: SimulatorConfig where
  "SimulatorConfig_default =
     \<lparr>config_id = ''FULL'', use_counting = True, use_deviations = True,
      betting_strategy = ''KELLY'', log_json = False, wong_out_threshold = None,
      min_hands_per_shoe = 0, simulate_late_entry = False, late_entry_max_pen = 1 / 2\<rparr>"

subsection \<open>Shoe\<close>

record Shoe =
  shoe_num_decks :: int
  shoe_cards :: "Card list"
  dealt_index :: nat
  shuffles_done :: nat

definition all_suits :: "Suit list" where
  "all_suits = [HEARTS, DIAMONDS, CLUBS, SPADES]"

definition all_ranks :: "Rank list" where
  "all_ranks = [TWO, THREE, FOUR, FIVE, SIX, SEVEN, EIGHT, NINE, TEN, JACK, QUEEN, KING, ACE]"

text \<open>The cards that \<^verbatim>\<open>shuffle\<close> collects before it permutes them: for every deck, for
  every suit, every rank.\<close>

definition fresh_cards :: "int \<Rightarrow> Card list" where
  "fresh_cards n =
     concat (replicate (nat n)
       (concat (map (\<lambda>s. map (\<lambda>r. Card_init r s) all_ranks) all_suits)))"

definition shuffle :: "(nat \<Rightarrow> Card list \<Rightarrow> Card list) \<Rightarrow> Shoe \<Rightarrow> Shoe" where
  "shuffle shuffle_oracle shoe =
     shoe\<lparr>shoe_cards := shuffle_oracle (shuffles_done shoe) (fresh_cards (shoe_num_decks shoe)),
          dealt_index := 0,
          shuffles_done := shuffles_done shoe + 1\<rparr>"

definition Shoe_init :: "(nat \<Rightarrow> Card list \<Rightarrow> Card list) \<Rightarrow> int \<Rightarrow> Shoe" where
  "Shoe_init shuffle_oracle n =
     shuffle shuffle_oracle
       \<lparr>shoe_num_decks = n, shoe_cards = [], dealt_index = 0, shuffles_done = 0\<rparr>"

definition deal :: "Shoe \<Rightarrow> py_error + Card \<times> Shoe" where
  "deal shoe =
     (if dealt_index shoe \<ge> length (shoe_cards shoe) then Inl RuntimeError
      else Inr (shoe_cards shoe ! dealt_index shoe, shoe\<lparr>dealt_index := dealt_index shoe + 1\<rparr>))"

definition shoe_penetration :: "Shoe \<Rightarrow> real" where
  "shoe_penetration shoe =
     (if length (shoe_cards shoe) = 0 then 0
      else real (dealt_index shoe) / real (length (shoe_cards shoe)))"

definition needs_shuffle :: "Shoe \<Rightarrow> real \<Rightarrow> bool" where
  "needs_shuffle shoe cut_pen = (shoe_penetration shoe \<ge> cut_pen)"

definition shoe_total_cards :: "Shoe \<Rightarrow> int" where
  "shoe_total_cards shoe = int (length (shoe_cards shoe))"

text \<open>\<^verbatim>\<open>burn_cards(count)\<close>; the count comes from \<^verbatim>\<open>randint(0, max_burn)\<close> and is not
  negative.\<close>

definition burn_cards :: "Shoe \<Rightarrow> int \<Rightarrow> Shoe" where
  "burn_cards shoe count =
     shoe\<lparr>dealt_index := nat (min (int (dealt_index shoe) + count) (int (length (shoe_cards shoe))))\<rparr>"

subsection \<open>Agent\<close>

record BlackjackAgent =
  agent_rules :: GameRules
  state_manager :: StateManager
  strategy_engine :: StrategyEngine
  betting_engine :: BettingEngine

text \<open>The view of the rules that the State Manager reads.\<close>

definition state_rules :: "GameRules \<Rightarrow> GameRules_state" where
  "state_rules r =
     \<lparr>num_decks = gr_num_decks r, cards_per_deck = gr_cards_per_deck r,
      cut_penetration = gr_penetration r\<rparr>"

text \<open>\<^verbatim>\<open>BlackjackAgent.__init__\<close>; \<open>loaded\<close> is the strategy table read from the file
  named by the rules (\<^verbatim>\<open>s17_das\<close> or \<^verbatim>\<open>h17_das\<close>), \<open>None\<close> when that file is missing.\<close>

definition BlackjackAgent_init ::
  "GameRules \<Rightarrow> BettingConfig option \<Rightarrow> strategy_table option \<Rightarrow> py_error + BlackjackAgent" where
  "BlackjackAgent_init rules betting_cfg loaded =
     err_bind
       (BettingEngine_init
          (Some (case betting_cfg of Some c \<Rightarrow> c | None \<Rightarrow> BettingConfig_default))
          (Some rules))
       (\<lambda>be.
         Inr \<lparr>agent_rules = rules,
              state_manager = StateManager_init (state_rules rules),
              strategy_engine =
                StrategyEngine_init
                  \<lparr>dealer_stands_soft_17 = gr_dealer_stands_soft_17 rules,
                   double_after_split = gr_double_after_split rules,
                   surrender_allowed = gr_surrender_allowed rules,
                   config_num_decks = gr_num_decks rules,
                   rule_set_name =
                     (if gr_dealer_stands_soft_17 rules then ''s17_das'' else ''h17_das''),
                   deviation_threshold_margin = 0\<rparr>
                  loaded None,
              betting_engine = be\<rparr>)"

definition agent_observe_card :: "BlackjackAgent \<Rightarrow> Card \<Rightarrow> BlackjackAgent" where
  "agent_observe_card ag c = ag\<lparr>state_manager := observe_card (state_manager ag) c\<rparr>"

fun agent_observe_cards :: "BlackjackAgent \<Rightarrow> Card list \<Rightarrow> BlackjackAgent" where
  "agent_observe_cards ag [] = ag"
| "agent_observe_cards ag (c # rest) = agent_observe_cards (agent_observe_card ag c) rest"

definition get_decision_with_context ::
  "BlackjackAgent \<Rightarrow> Hand \<Rightarrow> Card \<Rightarrow> bool \<Rightarrow> py_error + DecisionResult" where
  "get_decision_with_context ag hand dealer_up use_dev =
     err_bind (get_metrics (state_manager ag)) (\<lambda>metrics.
       decide_with_context (strategy_engine ag) hand dealer_up metrics use_dev)"

definition get_bet :: "BlackjackAgent \<Rightarrow> real \<Rightarrow> py_error + real" where
  "get_bet ag bankroll =
     err_bind (get_metrics (state_manager ag)) (\<lambda>metrics.
       compute_bet (betting_engine ag) (true_count metrics) bankroll (penetration metrics))"

definition agent_get_metrics :: "BlackjackAgent \<Rightarrow> py_error + GameState" where
  "agent_get_metrics ag = get_metrics (state_manager ag)"

definition agent_reset :: "BlackjackAgent \<Rightarrow> BlackjackAgent" where
  "agent_reset ag = ag\<lparr>state_manager := reset (state_manager ag) None 0\<rparr>"

definition reset_with_burn :: "BlackjackAgent \<Rightarrow> int \<Rightarrow> BlackjackAgent" where
  "reset_with_burn ag burn_count = ag\<lparr>state_manager := reset (state_manager ag) None burn_count\<rparr>"

subsection \<open>Playing one hand\<close>

text \<open>How the player's loop of \<^verbatim>\<open>_play_hand\<close> ends: with a surrender (the source returns
  from inside the loop), or with the final hand, the bet (doubled by DOUBLE) and whether
  the player is bust.\<close>

datatype PlayerTurn =
  Surrendered Shoe BlackjackAgent Hand "Action list"
| Finished Shoe BlackjackAgent Hand "Action list" real bool

function player_turn ::
  "bool \<Rightarrow> Card \<Rightarrow> real \<Rightarrow> Shoe \<Rightarrow> BlackjackAgent \<Rightarrow> Hand \<Rightarrow> Action list
     \<Rightarrow> py_error + PlayerTurn" where
  "player_turn use_dev dealer_up bet shoe ag hand acts =
     (case get_decision_with_context ag hand dealer_up use_dev of
        Inl e \<Rightarrow> Inl e
      | Inr decision \<Rightarrow>
          (case action decision of
             SURRENDER \<Rightarrow> Inr (Surrendered shoe ag hand (acts @ [SURRENDER]))
           | STAND \<Rightarrow> Inr (Finished shoe ag hand (acts @ [STAND]) bet False)
           | HIT \<Rightarrow>
               (case deal shoe of
                  Inl e \<Rightarrow> Inl e
                | Inr (c, shoe') \<Rightarrow>
                    (case add_card hand c of
                       Inl e \<Rightarrow> Inl e
                     | Inr hand' \<Rightarrow>
                         (if total hand' > 21
                          then Inr (Finished shoe' (agent_observe_card ag c) hand'
                                      (acts @ [HIT]) bet True)
                          else player_turn use_dev dealer_up bet shoe'
                                 (agent_observe_card ag c) hand' (acts @ [HIT]))))
           | DOUBLE \<Rightarrow>
               (case deal shoe of
                  Inl e \<Rightarrow> Inl e
                | Inr (c, shoe') \<Rightarrow>
                    (case add_card hand c of
                       Inl e \<Rightarrow> Inl e
                     | Inr hand' \<Rightarrow>
                         Inr (Finished shoe' (agent_observe_card ag c) hand'
                                (acts @ [DOUBLE]) (bet * 2) (total hand' > 21))))
           | SPLIT \<Rightarrow>
               (case deal shoe of
                  Inl e \<Rightarrow> Inl e
                | Inr (c, shoe') \<Rightarrow>
                    (case add_card hand c of
                       Inl e \<Rightarrow> Inl e
                     | Inr hand' \<Rightarrow>
                         (if total hand' > 21
                          then Inr (Finished shoe' (agent_observe_card ag c) hand'
                                      (acts @ [SPLIT]) bet True)
                          else player_turn use_dev dealer_up bet shoe'
                                 (agent_observe_card ag c) hand' (acts @ [SPLIT]))))))"
  by pat_completeness auto
termination
  by (relation "measure (\<lambda>(use_dev, dealer_up, bet, shoe, ag, hand, acts).
                  length (shoe_cards shoe) - dealt_index shoe)")
     (auto simp: deal_def split: if_splits)

declare player_turn.simps [simp del]

function dealer_turn ::
  "bool \<Rightarrow> Shoe \<Rightarrow> BlackjackAgent \<Rightarrow> Hand \<Rightarrow> py_error + Shoe \<times> BlackjackAgent \<times> Hand" where
  "dealer_turn s17 shoe ag dhand =
     (if total dhand > 21 then Inr (shoe, ag, dhand)
      else if total dhand \<ge> 17 \<and> \<not> (total dhand = 17 \<and> is_soft dhand \<and> \<not> s17)
        then Inr (shoe, ag, dhand)
      else
        (case deal shoe of
           Inl e \<Rightarrow> Inl e
         | Inr (c, shoe') \<Rightarrow>
             (case add_card dhand c of
                Inl e \<Rightarrow> Inl e
              | Inr dhand' \<Rightarrow> dealer_turn s17 shoe' (agent_observe_card ag c) dhand')))"
  by pat_completeness auto
termination
  by (relation "measure (\<lambda>(s17, shoe, ag, dhand). length (shoe_cards shoe) - dealt_index shoe)")
     (auto simp: deal_def split: if_splits)

declare dealer_turn.simps [simp del]


definition blackjack_result ::
  "Hand \<Rightarrow> Hand \<Rightarrow> real \<Rightarrow> real \<Rightarrow> real \<Rightarrow> HandResult" where
  "blackjack_result ph dh bet tc pays =
     (if is_blackjack dh then
        \<lparr>player_hand = ph, dealer_hand = dh, final_player_total = 21, final_dealer_total = 21,
         actions_taken = [STAND], bet_size = bet, payout = bet, net_result = 0,
         hand_true_count = tc, outcome = ''push''\<rparr>
      else
        \<lparr>player_hand = ph, dealer_hand = dh, final_player_total = 21,
         final_dealer_total = total dh, actions_taken = [STAND], bet_size = bet,
         payout = bet + bet * pays, net_result = (bet + bet * pays) - bet,
         hand_true_count = tc, outcome = ''blackjack''\<rparr>)"

text \<open>The settlement at the end of \<^verbatim>\<open>_play_hand\<close>.\<close>

definition settle :: "Hand \<Rightarrow> Hand \<Rightarrow> Action list \<Rightarrow> real \<Rightarrow> real \<Rightarrow> HandResult" where
  "settle ph dh acts current_bet tc =
     (let (pay, out) =
            (if total dh > 21 then (current_bet * 2, ''win'')
             else if total ph > total dh then (current_bet * 2, ''win'')
             else if total ph = total dh then (current_bet, ''push'')
             else (0, ''loss''))
      in \<lparr>player_hand = ph, dealer_hand = dh, final_player_total = total ph,
          final_dealer_total = total dh, actions_taken = acts, bet_size = current_bet,
          payout = pay, net_result = pay - current_bet, hand_true_count = tc,
          outcome = out\<rparr>)"

text \<open>\<^verbatim>\<open>_play_hand(bet, true_count)\<close>: the deal, the player's turn, the dealer's turn and
  the settlement. It returns the result with the shoe and the agent as it leaves them.\<close>

definition play_hand ::
  "GameRules \<Rightarrow> bool \<Rightarrow> Shoe \<Rightarrow> BlackjackAgent \<Rightarrow> real \<Rightarrow> real
     \<Rightarrow> py_error + HandResult \<times> Shoe \<times> BlackjackAgent" where
  "play_hand rules use_dev shoe ag bet tc =
     err_bind (deal shoe) (\<lambda>(c1, s1).
     err_bind (deal s1) (\<lambda>(c2, s2).
     err_bind (deal s2) (\<lambda>(dealer_up, s3).
     err_bind (deal s3) (\<lambda>(dealer_hole, s4).
       let ag1 = agent_observe_card (agent_observe_cards ag [c1, c2]) dealer_up
       in err_bind (from_cards [c1, c2]) (\<lambda>ph.
            if is_blackjack ph then
              err_bind (from_cards [dealer_up, dealer_hole]) (\<lambda>dh.
                Inr (blackjack_result ph dh bet tc (gr_blackjack_pays rules), s4,
                     agent_observe_card ag1 dealer_hole))
            else
              err_bind (player_turn use_dev dealer_up bet s4 ag1 ph []) (\<lambda>turn.
                case turn of
                  Surrendered s5 ag2 ph' acts \<Rightarrow>
                    err_bind (from_cards [dealer_up, dealer_hole]) (\<lambda>dh.
                      Inr (\<lparr>player_hand = ph', dealer_hand = dh,
                            final_player_total = total ph', final_dealer_total = total dh,
                            actions_taken = acts, bet_size = bet, payout = bet / 2,
                            net_result = - bet / 2, hand_true_count = tc,
                            outcome = ''surrender''\<rparr>,
                           s5, agent_observe_card ag2 dealer_hole))
                | Finished s5 ag2 ph' acts current_bet busted \<Rightarrow>
                    if busted then
                      err_bind (from_cards [dealer_up, dealer_hole]) (\<lambda>dh.
                        Inr (\<lparr>player_hand = ph', dealer_hand = dh,
                              final_player_total = total ph', final_dealer_total = total dh,
                              actions_taken = acts, bet_size = current_bet, payout = 0,
                              net_result = - current_bet, hand_true_count = tc,
                              outcome = ''bust''\<rparr>,
                             s5, agent_observe_card ag2 dealer_hole))
                    else
                      err_bind (from_cards [dealer_up, dealer_hole]) (\<lambda>dh0.
                        err_bind (dealer_turn (gr_dealer_stands_soft_17 rules) s5
                                    (agent_observe_card ag2 dealer_hole) dh0)
                          (\<lambda>(s6, ag3, dh).
                            Inr (settle ph' dh acts current_bet tc, s6, ag3)))))))))"

subsection \<open>The run\<close>

record Simulator =
  sim_rules :: GameRules
  sim_config :: SimulatorConfig
  sim_betting_config :: BettingConfig
  shuffle_oracle :: "nat \<Rightarrow> Card list \<Rightarrow> Card list"
  randint_oracle :: "nat \<Rightarrow> int"

text \<open>The state of \<^verbatim>\<open>run\<close>: the shoe and the agent of the simulator, the local variables
  of the loop, the lists kept for the statistics and the number of \<^verbatim>\<open>randint\<close> calls made.\<close>

record RunState =
  rs_shoe :: Shoe
  rs_agent :: BlackjackAgent
  rs_result :: SimulationResult
  rs_bankroll :: real
  rs_max_bankroll :: real
  rs_peak_bankroll :: real
  rs_hands_this_shoe :: int
  rs_hands_skipped :: int
  rs_hand_results :: "HandResult list"
  rs_ev_samples :: "real list"
  rs_randints_done :: nat

text \<open>\<^verbatim>\<open>BlackjackSimulator.__init__\<close>: the betting configuration is the one passed in, or
  the default one with flat betting when the strategy is FLAT.\<close>

definition simulator_betting_config :: "SimulatorConfig \<Rightarrow> BettingConfig option \<Rightarrow> BettingConfig" where
  "simulator_betting_config cfg betting_cfg =
     (case betting_cfg of
        Some c \<Rightarrow> c
      | None \<Rightarrow> BettingConfig_default\<lparr>bc_flat_betting := (betting_strategy cfg = ''FLAT'')\<rparr>)"

definition Simulator_init ::
  "GameRules option \<Rightarrow> BettingConfig option \<Rightarrow> SimulatorConfig option
     \<Rightarrow> (nat \<Rightarrow> Card list \<Rightarrow> Card list) \<Rightarrow> (nat \<Rightarrow> int) \<Rightarrow> Simulator" where
  "Simulator_init rules_opt betting_cfg cfg_opt so ro =
     (let cfg = (case cfg_opt of Some c \<Rightarrow> c | None \<Rightarrow> SimulatorConfig_default)
      in \<lparr>sim_rules = (case rules_opt of Some r \<Rightarrow> r | None \<Rightarrow> GameRules_default),
          sim_config = cfg,
          sim_betting_config = simulator_betting_config cfg betting_cfg,
          shuffle_oracle = so,
          randint_oracle = ro\<rparr>)"

text \<open>The state in which \<^verbatim>\<open>run\<close> enters its loop, from the agent and the shoe that
  \<^verbatim>\<open>__init__\<close> creates (or that an earlier run left).\<close>

definition initial_state :: "Shoe \<Rightarrow> BlackjackAgent \<Rightarrow> real \<Rightarrow> RunState" where
  "initial_state shoe ag starting_bankroll =
     \<lparr>rs_shoe = shoe, rs_agent = ag, rs_result = SimulationResult_init starting_bankroll,
      rs_bankroll = starting_bankroll, rs_max_bankroll = starting_bankroll,
      rs_peak_bankroll = starting_bankroll, rs_hands_this_shoe = 0, rs_hands_skipped = 0,
      rs_hand_results = [], rs_ev_samples = [], rs_randints_done = 0\<rparr>"

text \<open>\<^verbatim>\<open>int(x)\<close> on a float truncates towards zero.\<close>

definition py_int :: "real \<Rightarrow> int" where
  "py_int x = (if x \<ge> 0 then \<lfloor>x\<rfloor> else \<lceil>x\<rceil>)"

text \<open>\<^verbatim>\<open>random.randint(a, b)\<close>: raises on an empty range, else some integer of the range.\<close>

definition randint :: "(nat \<Rightarrow> int) \<Rightarrow> nat \<Rightarrow> int \<Rightarrow> int \<Rightarrow> py_error + int" where
  "randint oracle k a b =
     (if a > b then Inl ValueError else Inr (a + oracle k mod (b - a + 1)))"

text \<open>The block that \<^verbatim>\<open>run\<close> executes at a due shuffle and, again, at a table hop: a
  fresh shuffle, no hand played in this shoe, and either a late entry (burn a random
  number of cards, reset the agent with the burn count) or a plain reset.\<close>

definition enter_new_shoe :: "Simulator \<Rightarrow> RunState \<Rightarrow> py_error + RunState" where
  "enter_new_shoe sim st =
     (let shoe1 = shuffle (shuffle_oracle sim) (rs_shoe st)
      in if simulate_late_entry (sim_config sim) then
           (let max_burn =
                  py_int (of_int (shoe_total_cards shoe1) * late_entry_max_pen (sim_config sim))
            in err_bind (randint (randint_oracle sim) (rs_randints_done st) 0 max_burn)
                 (\<lambda>burn_count.
                   Inr (st\<lparr>rs_shoe := burn_cards shoe1 burn_count,
                           rs_agent := reset_with_burn (rs_agent st) burn_count,
                           rs_hands_this_shoe := 0,
                           rs_randints_done := rs_randints_done st + 1\<rparr>)))
         else Inr (st\<lparr>rs_shoe := shoe1, rs_agent := agent_reset (rs_agent st),
                      rs_hands_this_shoe := 0\<rparr>))"

text \<open>The wager of a hand: the bet of the betting engine, replaced by the table minimum
  when it is zero or below the minimum, then capped by the bankroll.\<close>

definition wager :: "Simulator \<Rightarrow> BlackjackAgent \<Rightarrow> real \<Rightarrow> py_error + real" where
  "wager sim ag bankroll =
     err_bind (get_bet ag bankroll) (\<lambda>bet0.
       let bet1 = (if bet0 \<le> 0 \<or> bet0 < bc_table_min (sim_betting_config sim)
                   then bc_table_min (sim_betting_config sim) else bet0)
       in Inr (min bet1 bankroll))"

fun count_actions :: "(Action \<rightharpoonup> int) \<Rightarrow> Action list \<Rightarrow> (Action \<rightharpoonup> int)" where
  "count_actions m [] = m"
| "count_actions m (a # rest) =
     count_actions (m(a \<mapsto> (case m a of None \<Rightarrow> 0 | Some n \<Rightarrow> n) + 1)) rest"

definition count_outcome :: "SimulationResult \<Rightarrow> string \<Rightarrow> SimulationResult" where
  "count_outcome r out =
     (if out = ''win'' then r\<lparr>wins := wins r + 1\<rparr>
      else if out = ''loss'' then r\<lparr>losses := losses r + 1\<rparr>
      else if out = ''push'' then r\<lparr>pushes := pushes r + 1\<rparr>
      else if out = ''blackjack'' then r\<lparr>blackjacks := blackjacks r + 1\<rparr>
      else if out = ''surrender'' then r\<lparr>surrenders := surrenders r + 1\<rparr>
      else if out = ''bust'' then r\<lparr>busts := busts r + 1\<rparr>
      else r)"

text \<open>The bookkeeping of \<^verbatim>\<open>run\<close> after a hand.\<close>

definition record_hand :: "RunState \<Rightarrow> int \<Rightarrow> HandResult \<Rightarrow> RunState" where
  "record_hand st tc_bucket hr =
     (let bankroll' = rs_bankroll st + net_result hr;
          ev_pct = (if bet_size hr > 0 then net_result hr / bet_size hr else 0);
          r0 = rs_result st;
          (current_ev, n) =
            (case ev_by_true_count r0 tc_bucket of None \<Rightarrow> (0, 0) | Some p \<Rightarrow> p);
          r1 = r0\<lparr>total_wagered := total_wagered r0 + bet_size hr,
                  total_won := total_won r0 + payout hr,
                  hands_played := hands_played r0 + 1,
                  ev_by_true_count := (ev_by_true_count r0)(tc_bucket \<mapsto> (current_ev + ev_pct, n + 1)),
                  hands_by_action := count_actions (hands_by_action r0) (actions_taken hr)\<rparr>;
          r2 = count_outcome r1 (outcome hr);
          peak = max (rs_peak_bankroll st) bankroll';
          r3 = r2\<lparr>max_drawdown := max (max_drawdown r2) (peak - bankroll')\<rparr>
      in st\<lparr>rs_bankroll := bankroll',
            rs_result := r3,
            rs_hands_this_shoe := rs_hands_this_shoe st + 1,
            rs_ev_samples := rs_ev_samples st @ [ev_pct],
            rs_peak_bankroll := peak,
            rs_max_bankroll := max (rs_max_bankroll st) bankroll',
            rs_hand_results := rs_hand_results st @ [hr]\<rparr>)"

datatype 'a loop_step = Break 'a | Next 'a

text \<open>One pass through the body of the loop of \<^verbatim>\<open>run\<close>: \<open>Break\<close> where the source
  breaks, \<open>Next\<close> where it continues or reaches the end of the body.\<close>

definition run_iteration :: "Simulator \<Rightarrow> RunState \<Rightarrow> py_error + RunState loop_step" where
  "run_iteration sim st0 =
     err_bind
       (if needs_shuffle (rs_shoe st0) (gr_penetration (sim_rules sim))
        then enter_new_shoe sim st0 else Inr st0)
       (\<lambda>st.
         err_bind (agent_get_metrics (rs_agent st)) (\<lambda>metrics.
           if (case wong_out_threshold (sim_config sim) of
                 None \<Rightarrow> False
               | Some thr \<Rightarrow> true_count metrics < thr
                              \<and> rs_hands_this_shoe st \<ge> min_hands_per_shoe (sim_config sim))
           then
             err_bind (enter_new_shoe sim (st\<lparr>rs_hands_skipped := rs_hands_skipped st + 1\<rparr>))
               (\<lambda>st'. Inr (Next st'))
           else
             (let tc = (if use_counting (sim_config sim) then true_count metrics else 0);
                  tc_bucket = py_round (true_count metrics);
                  r = rs_result st;
                  st1 = st\<lparr>rs_result :=
                            r\<lparr>true_count_distribution :=
                                (true_count_distribution r)
                                  (tc_bucket \<mapsto>
                                     (case true_count_distribution r tc_bucket of
                                        None \<Rightarrow> 0 | Some n \<Rightarrow> n) + 1)\<rparr>\<rparr>
              in err_bind (wager sim (rs_agent st1) (rs_bankroll st1)) (\<lambda>bet.
                   if bet \<le> 0 then Inr (Break st1)
                   else
                     err_bind (play_hand (sim_rules sim) (use_deviations (sim_config sim))
                                 (rs_shoe st1) (rs_agent st1) bet tc)
                       (\<lambda>(hr, shoe', ag').
                         Inr (Next (record_hand (st1\<lparr>rs_shoe := shoe', rs_agent := ag'\<rparr>)
                                      tc_bucket hr)))))))"

text \<open>The loop \<^verbatim>\<open>for hand_num in range(num_hands)\<close>.\<close>

fun run_loop :: "Simulator \<Rightarrow> nat \<Rightarrow> RunState \<Rightarrow> py_error + RunState" where
  "run_loop sim 0 st = Inr st"
| "run_loop sim (Suc n) st =
     (case run_iteration sim st of
        Inl e \<Rightarrow> Inl e
      | Inr (Break st') \<Rightarrow> Inr st'
      | Inr (Next st') \<Rightarrow> run_loop sim n st')"

text \<open>The statistics computed after the loop.\<close>

definition finalize :: "real \<Rightarrow> RunState \<Rightarrow> SimulationResult" where
  "finalize starting_bankroll st =
     (let r = rs_result st;
          np = rs_bankroll st - starting_bankroll;
          samples = rs_ev_samples st;
          n = real (length samples)
      in r\<lparr>final_bankroll := rs_bankroll st,
           net_profit := np,
           ev_percent := (if total_wagered r > 0 then np / total_wagered r * 100 else 0),
           win_rate := (if hands_played r > 0 then of_int (wins r) / of_int (hands_played r) else 0),
           average_bet := (if hands_played r > 0 then total_wagered r / of_int (hands_played r) else 0),
           hands_skipped := rs_hands_skipped st,
           standard_error :=
             (if length samples > 1
              then (let mean_ev = sum_list samples / n;
                        var = sum_list (map (\<lambda>x. (x - mean_ev) ^ 2) samples) / (n - 1)
                    in sqrt var / sqrt n)
              else standard_error r)\<rparr>)"

definition run ::
  "Simulator \<Rightarrow> Shoe \<Rightarrow> BlackjackAgent \<Rightarrow> int \<Rightarrow> real \<Rightarrow> py_error + SimulationResult" where
  "run sim shoe ag num_hands starting_bankroll =
     err_bind (run_loop sim (nat num_hands) (initial_state shoe ag starting_bankroll))
       (\<lambda>st. Inr (finalize starting_bankroll st))"


text \<open>The agent and the shoe that \<^verbatim>\<open>BlackjackSimulator.__init__\<close> creates; \<open>loaded\<close> is
  the strategy table read from the strategy file, \<open>None\<close> when the file is missing.\<close>

definition simulator_agent :: "Simulator \<Rightarrow> strategy_table option \<Rightarrow> py_error + BlackjackAgent" where
  "simulator_agent sim loaded =
     BlackjackAgent_init (sim_rules sim) (Some (sim_betting_config sim)) loaded"

definition simulator_shoe :: "Simulator \<Rightarrow> Shoe" where
  "simulator_shoe sim = Shoe_init (shuffle_oracle sim) (gr_num_decks (sim_rules sim))"


definition low_cards_first :: "nat \<Rightarrow> Card list \<Rightarrow> Card list" where
  "low_cards_first k cs = filter (\<lambda>c. hilo_tag c = 1) cs @ filter (\<lambda>c. hilo_tag c \<noteq> 1) cs"

section \<open>State Manager: counting after a reset\<close>

lemma observe_running_count:
  "sm_running_count (observe sm cs) = sm_running_count sm + sum_list (map hilo_tag cs)"
  by (induction cs arbitrary: sm) simp_all

lemma observe_cards_seen:
  "sm_cards_seen (observe sm cs) = sm_cards_seen sm + int (length cs)"
  by (induction cs arbitrary: sm) simp_all

lemma observe_rules: "sm_rules (observe sm cs) = sm_rules sm"
  by (induction cs arbitrary: sm) simp_all

text \<open>
  C8. After \<^verbatim>\<open>reset(burn_count=k)\<close> with \<open>k \<ge> 0\<close> and the observation of any finite
  sequence of cards, the running count is the sum of the Hi-Lo tags of the sequence,
  \<^verbatim>\<open>cards_seen\<close> is \<open>k\<close> plus the length of the sequence, and the snapshot exists (for a
  deck size other than 0, where the source divides), with \<^verbatim>\<open>decks_remaining\<close> equal to
  \<open>(total_cards - cards_seen) / cards_per_deck\<close> clamped below at 0.5 and
  \<^verbatim>\<open>true_count = running_count / decks_remaining\<close>.
\<close>

theorem reset_observe_snapshot:
  assumes "cards_per_deck (sm_rules sm) \<noteq> 0"
  shows "sm_running_count (observe (reset sm None (int k)) cs) = sum_list (map hilo_tag cs)
       \<and> sm_cards_seen (observe (reset sm None (int k)) cs) = int k + int (length cs)
       \<and> (\<exists>g. get_metrics (observe (reset sm None (int k)) cs) = Inr g
            \<and> running_count g = sum_list (map hilo_tag cs)
            \<and> decks_remaining g =
                max (1 / 2) (of_int (total_cards (sm_rules sm) - (int k + int (length cs)))
                             / of_int (cards_per_deck (sm_rules sm)))
            \<and> 1 / 2 \<le> decks_remaining g
            \<and> true_count g = of_int (running_count g) / decks_remaining g)"
proof -
  let ?sm = "observe (reset sm None (int k)) cs"
  have rc: "sm_running_count ?sm = sum_list (map hilo_tag cs)"
    by (simp add: observe_running_count reset_def)
  have seen: "sm_cards_seen ?sm = int k + int (length cs)"
    by (simp add: observe_cards_seen reset_def)
  have rules: "sm_rules ?sm = sm_rules sm"
    by (simp add: observe_rules reset_def)
  define d where "d = max (1 / 2) (of_int (total_cards (sm_rules sm) - (int k + int (length cs)))
                          / real_of_int (cards_per_deck (sm_rules sm)))"
  have decks: "calculate_decks_remaining ?sm = Inr d"
    using assms(1) by (simp add: calculate_decks_remaining_def rules seen Let_def d_def)
  have half: "1 / 2 \<le> d"
    unfolding d_def by (rule max.cobounded1)
  then have pos: "d \<noteq> 0" by linarith
  have tc: "calculate_true_count ?sm d = Inr (of_int (sm_running_count ?sm) / d)"
    using pos by (simp add: calculate_true_count_def)
  have "get_metrics ?sm = Inr \<lparr>true_count = of_int (sm_running_count ?sm) / d,
          cards_remaining = total_cards (sm_rules ?sm) - sm_cards_seen ?sm,
          running_count = sm_running_count ?sm,
          decks_remaining = d,
          penetration =
            (if total_cards (sm_rules ?sm) > 0
             then of_int (sm_cards_seen ?sm) / of_int (total_cards (sm_rules ?sm))
             else 0)\<rparr>"
    by (simp add: get_metrics_def decks tc)
  then have "\<exists>g. get_metrics ?sm = Inr g
            \<and> running_count g = sum_list (map hilo_tag cs)
            \<and> decks_remaining g = d
            \<and> 1 / 2 \<le> decks_remaining g
            \<and> true_count g = of_int (running_count g) / decks_remaining g"
    using rc half by simp
  then show ?thesis
    using rc seen unfolding d_def by blast
qed

theorem reset_observe_snapshot_witness:
  "sm_running_count
     (observe (reset (StateManager_init \<lparr>num_decks = 6, cards_per_deck = 52, cut_penetration = 3 / 4\<rparr>)
                None (int 26))
        [\<lparr>rank = TWO, suit = SPADES\<rparr>, \<lparr>rank = KING, suit = HEARTS\<rparr>, \<lparr>rank = FIVE, suit = CLUBS\<rparr>]) = 1
   \<and> get_metrics
     (observe (reset (StateManager_init \<lparr>num_decks = 6, cards_per_deck = 52, cut_penetration = 3 / 4\<rparr>)
                None (int 26))
        [\<lparr>rank = TWO, suit = SPADES\<rparr>, \<lparr>rank = KING, suit = HEARTS\<rparr>, \<lparr>rank = FIVE, suit = CLUBS\<rparr>])
     = Inr \<lparr>true_count = 52 / 283, cards_remaining = 283, running_count = 1,
            decks_remaining = 283 / 52, penetration = 29 / 312\<rparr>"
  using reset_observe_snapshot
    [of "StateManager_init \<lparr>num_decks = 6, cards_per_deck = 52, cut_penetration = 3 / 4\<rparr>" 26
        "[\<lparr>rank = TWO, suit = SPADES\<rparr>, \<lparr>rank = KING, suit = HEARTS\<rparr>, \<lparr>rank = FIVE, suit = CLUBS\<rparr>]"]
  by (simp add: StateManager_init_def reset_def get_metrics_def calculate_decks_remaining_def
      calculate_true_count_def total_cards_def hilo_tag_def rank_hilo_tag_def)


section \<open>Keys of the deviation index\<close>

lemma digit_char_inj:
  assumes "a < 10" "b < 10" "digit_char a = digit_char b"
  shows "a = b"
proof -
  have a: "a \<in> {0,1,2,3,4,5,6,7,8,9}" using assms(1) by auto
  have b: "b \<in> {0,1,2,3,4,5,6,7,8,9}" using assms(2) by auto
  show ?thesis using a b assms(3) by (auto simp: digit_char_def)
qed

lemma digit_char_not_sep:
  assumes "a < 10"
  shows "digit_char a \<noteq> CHR ''_''" "digit_char a \<noteq> CHR ''-''"
proof -
  have a: "a \<in> {0,1,2,3,4,5,6,7,8,9}" using assms(1) by auto
  show "digit_char a \<noteq> CHR ''_''" using a by (auto simp: digit_char_def)
  show "digit_char a \<noteq> CHR ''-''" using a by (auto simp: digit_char_def)
qed

lemma str_nat_nonempty: "str_nat n \<noteq> []"
  by (subst str_nat.simps) simp

lemma str_nat_chars: "c \<in> set (str_nat n) \<Longrightarrow> c \<noteq> CHR ''_'' \<and> c \<noteq> CHR ''-''"
proof (induction n rule: str_nat.induct)
  case (1 n)
  show ?case
  proof (cases "n < 10")
    case True
    with "1.prems" show ?thesis
      by (subst (asm) str_nat.simps) (auto simp: digit_char_not_sep)
  next
    case False
    have m: "n mod 10 < 10" by simp
    from False "1.prems" have "c \<in> set (str_nat (n div 10)) \<or> c = digit_char (n mod 10)"
      by (subst (asm) str_nat.simps) auto
    then show ?thesis
      using "1.IH" [OF False] digit_char_not_sep [OF m] by auto
  qed
qed

lemma str_nat_inj: "str_nat n = str_nat m \<Longrightarrow> n = m"
proof (induction n arbitrary: m rule: str_nat.induct)
  case (1 n)
  show ?case
  proof (cases "n < 10")
    case n: True
    show ?thesis
    proof (cases "m < 10")
      case True
      with n "1.prems" show ?thesis
        by (simp add: str_nat.simps [of n] str_nat.simps [of m] digit_char_inj)
    next
      case False
      with n "1.prems" show ?thesis
        using str_nat_nonempty [of "m div 10"]
        by (auto simp: str_nat.simps [of n] str_nat.simps [of m])
    qed
  next
    case n: False
    show ?thesis
    proof (cases "m < 10")
      case True
      with n "1.prems" show ?thesis
        using str_nat_nonempty [of "n div 10"]
        by (auto simp: str_nat.simps [of n] str_nat.simps [of m])
    next
      case False
      with n "1.prems" have eq: "str_nat (n div 10) = str_nat (m div 10)"
        and d: "digit_char (n mod 10) = digit_char (m mod 10)"
        by (simp_all add: str_nat.simps [of n] str_nat.simps [of m])
      from "1.IH" [OF n eq] have "n div 10 = m div 10" .
      moreover have "n mod 10 = m mod 10"
        using d by (intro digit_char_inj) simp_all
      ultimately show ?thesis
        by (metis div_mult_mod_eq)
    qed
  qed
qed

lemma py_str_int_no_sep: "CHR ''_'' \<notin> set (py_str_int i)"
  using str_nat_chars by (auto simp: py_str_int_def)

lemma str_nat_no_minus: "str_nat n \<noteq> CHR ''-'' # s" "CHR ''-'' # s \<noteq> str_nat n"
proof -
  show "str_nat n \<noteq> CHR ''-'' # s"
  proof
    assume "str_nat n = CHR ''-'' # s"
    then have "CHR ''-'' \<in> set (str_nat n)" by simp
    then show False using str_nat_chars by blast
  qed
  then show "CHR ''-'' # s \<noteq> str_nat n" by metis
qed

lemma py_str_int_inj: "py_str_int i = py_str_int j \<Longrightarrow> i = j"
proof -
  assume eq: "py_str_int i = py_str_int j"
  show ?thesis
  proof (cases "i < 0")
    case i: True
    show ?thesis
    proof (cases "j < 0")
      case True
      with i eq have "nat (- i) = nat (- j)" by (simp add: py_str_int_def str_nat_inj)
      with i True show ?thesis by simp
    next
      case False
      with i eq show ?thesis
        by (simp add: py_str_int_def str_nat_no_minus)
    qed
  next
    case i: False
    show ?thesis
    proof (cases "j < 0")
      case True
      with i eq show ?thesis
        by (simp add: py_str_int_def str_nat_no_minus)
    next
      case False
      with i eq have "nat i = nat j" by (simp add: py_str_int_def str_nat_inj)
      with i False show ?thesis by simp
    qed
  qed
qed

lemma split_at_separator:
  assumes "c \<notin> set a" "c \<notin> set a'" "a @ c # b = a' @ c # b'"
  shows "a = a' \<and> b = b'"
proof -
  have "takeWhile (\<lambda>x. x \<noteq> c) (a @ c # b) = a"
    using assms(1) by (subst takeWhile_append2) auto
  moreover have "takeWhile (\<lambda>x. x \<noteq> c) (a' @ c # b') = a'"
    using assms(2) by (subst takeWhile_append2) auto
  ultimately have "a = a'" using assms(3) by simp
  with assms(3) show ?thesis by simp
qed

lemma hand_type_value_inj: "hand_type_value s = hand_type_value t \<Longrightarrow> s = t"
  by (cases s; cases t) simp_all

lemma index_key_inj:
  assumes "index_key ht v d = index_key ht' v' d'"
  shows "ht = ht' \<and> v = v' \<and> d = d'"
proof -
  have len: "\<And>t. \<exists>c. hand_type_value t = [c]"
    by (case_tac t) simp_all
  obtain c c' where c: "hand_type_value ht = [c]" "hand_type_value ht' = [c']"
    using len by blast
  from assms c have "c = c'"
    and rest: "py_str_int v @ CHR ''_'' # py_str_int d = py_str_int v' @ CHR ''_'' # py_str_int d'"
    by (simp_all add: index_key_def)
  then have "ht = ht'" using c hand_type_value_inj by simp
  moreover from split_at_separator [OF py_str_int_no_sep py_str_int_no_sep rest]
  have "v = v'" "d = d'" using py_str_int_inj by blast+
  ultimately show ?thesis by simp
qed


section \<open>The deviation index\<close>

lemma index_append_lookup:
  "index_append idx devs k =
     (if filter (\<lambda>d. deviation_key d = k) devs = [] then idx k
      else Some ((case idx k of None \<Rightarrow> [] | Some l \<Rightarrow> l) @ filter (\<lambda>d. deviation_key d = k) devs))"
  by (induction devs arbitrary: idx) (auto split: option.splits)

lemma index_candidates:
  "(case index (DeviationEngine_init devs) k of None \<Rightarrow> [] | Some l \<Rightarrow> l) =
     sort_by_priority (filter (\<lambda>d. deviation_key d = k) devs)"
  by (simp add: DeviationEngine_init_def rebuild_index_def index_append_lookup sort_by_priority_def)

lemma check_deviation_filter:
  assumes "\<And>d key. d \<in> set devs \<Longrightarrow> hand_index_key hand dealer_up = Inr key
             \<Longrightarrow> deviation_key d = key \<Longrightarrow> P d"
  shows "check_deviation (DeviationEngine_init devs) hand dealer_up g =
         check_deviation (DeviationEngine_init (filter P devs)) hand dealer_up g"
proof (cases "hand_index_key hand dealer_up")
  case (Inl e)
  then show ?thesis by (simp add: check_deviation_def err_bind_def)
next
  case (Inr key)
  have "filter (\<lambda>d. deviation_key d = key) (filter P devs) = filter (\<lambda>d. deviation_key d = key) devs"
    using assms [OF _ Inr] by (induction devs) auto
  then show ?thesis
    using Inr by (simp add: check_deviation_def err_bind_def index_candidates)
qed

lemma hand_index_key_fields:
  assumes "hand_index_key hand dealer_up = Inr (deviation_key d)"
  shows "trig_hand_type (trigger d) = hand_type hand
       \<and> Inr (trig_value (trigger d)) = (if is_pair hand then pair_value hand else Inr (total hand))
       \<and> trig_dealer_up (trigger d) = dealer_value_of dealer_up"
  using assms
  by (auto simp: hand_index_key_def deviation_key_def hand_type_def err_bind_def Let_def
      split: if_splits sum.splits dest!: index_key_inj [OF sym] index_key_inj)


text \<open>
  C10. The deviation check classifies a hand as PAIR, else SOFT, else HARD, and consults
  only the deviations indexed under that classification, the value of the hand (the pair
  value for a pair, the total otherwise) and the dealer value: removing every other
  deviation from the engine never changes the result of the check. In particular, for a
  pair, the deviations keyed on HARD or SOFT totals can all be removed: they never fire.
\<close>

theorem check_deviation_own_classification:
  "check_deviation (DeviationEngine_init devs) hand dealer_up metrics =
     check_deviation
       (DeviationEngine_init
          (filter (\<lambda>d. trig_hand_type (trigger d) = hand_type hand
                     \<and> Inr (trig_value (trigger d)) =
                         (if is_pair hand then pair_value hand else Inr (total hand))
                     \<and> trig_dealer_up (trigger d) = dealer_value_of dealer_up) devs))
       hand dealer_up metrics
   \<and> hand_type hand = (if is_pair hand then PAIR else if is_soft hand then SOFT else HARD)
   \<and> (is_pair hand \<longrightarrow>
        check_deviation (DeviationEngine_init devs) hand dealer_up metrics =
        check_deviation
          (DeviationEngine_init (filter (\<lambda>d. trig_hand_type (trigger d) = PAIR) devs))
          hand dealer_up metrics)"
proof (intro conjI impI)
  show "check_deviation (DeviationEngine_init devs) hand dealer_up metrics =
     check_deviation
       (DeviationEngine_init
          (filter (\<lambda>d. trig_hand_type (trigger d) = hand_type hand
                     \<and> Inr (trig_value (trigger d)) =
                         (if is_pair hand then pair_value hand else Inr (total hand))
                     \<and> trig_dealer_up (trigger d) = dealer_value_of dealer_up) devs))
       hand dealer_up metrics"
    by (rule check_deviation_filter) (use hand_index_key_fields in blast)
  show "hand_type hand = (if is_pair hand then PAIR else if is_soft hand then SOFT else HARD)"
    by (simp add: hand_type_def)
  assume pair: "is_pair hand"
  show "check_deviation (DeviationEngine_init devs) hand dealer_up metrics =
        check_deviation
          (DeviationEngine_init (filter (\<lambda>d. trig_hand_type (trigger d) = PAIR) devs))
          hand dealer_up metrics"
  proof (rule check_deviation_filter)
    fix d key
    assume "hand_index_key hand dealer_up = Inr key" "deviation_key d = key"
    then have "trig_hand_type (trigger d) = hand_type hand"
      using hand_index_key_fields by blast
    with pair show "trig_hand_type (trigger d) = PAIR" by (simp add: hand_type_def)
  qed
qed


theorem check_deviation_own_classification_witness:
  "is_pair \<lparr>cards = [Card_init EIGHT SPADES, Card_init EIGHT HEARTS], is_pair = True, is_soft = False, total = 16\<rparr>
   \<and> check_deviation (DeviationEngine_init (ILLUSTRIOUS_18 @ FAB_4))
        \<lparr>cards = [Card_init EIGHT SPADES, Card_init EIGHT HEARTS], is_pair = True, is_soft = False, total = 16\<rparr>
        (Card_init TEN DIAMONDS) \<lparr>true_count = 0, cards_remaining = 312, running_count = 0, decks_remaining = 6, penetration = 0\<rparr>
     = check_deviation
        (DeviationEngine_init (filter (\<lambda>d. trig_hand_type (trigger d) = PAIR) (ILLUSTRIOUS_18 @ FAB_4)))
        \<lparr>cards = [Card_init EIGHT SPADES, Card_init EIGHT HEARTS], is_pair = True, is_soft = False, total = 16\<rparr>
        (Card_init TEN DIAMONDS) \<lparr>true_count = 0, cards_remaining = 312, running_count = 0, decks_remaining = 6, penetration = 0\<rparr>
   \<and> check_deviation (DeviationEngine_init (ILLUSTRIOUS_18 @ FAB_4))
        \<lparr>cards = [Card_init EIGHT SPADES, Card_init EIGHT HEARTS], is_pair = True, is_soft = False, total = 16\<rparr>
        (Card_init TEN DIAMONDS) \<lparr>true_count = 0, cards_remaining = 312, running_count = 0, decks_remaining = 6, penetration = 0\<rparr> = Inr None
   \<and> check_deviation (DeviationEngine_init (ILLUSTRIOUS_18 @ FAB_4))
        \<lparr>cards = [Card_init TEN SPADES, Card_init SIX HEARTS], is_pair = False, is_soft = False, total = 16\<rparr>
        (Card_init TEN DIAMONDS) \<lparr>true_count = 0, cards_remaining = 312, running_count = 0, decks_remaining = 6, penetration = 0\<rparr> = Inr (Some STAND)"
  using check_deviation_own_classification
    [of "ILLUSTRIOUS_18 @ FAB_4"
        "\<lparr>cards = [Card_init EIGHT SPADES, Card_init EIGHT HEARTS], is_pair = True, is_soft = False, total = 16\<rparr>"
        "Card_init TEN DIAMONDS" "\<lparr>true_count = 0, cards_remaining = 312, running_count = 0, decks_remaining = 6, penetration = 0\<rparr>"]
  by code_simp

section \<open>Strategy engine: validation of the returned action\<close>

text \<open>What does hold: the baseline action, and with it every decision taken with the
  deviations switched off, is validated.\<close>

lemma baseline_action_validated:
  assumes "get_baseline_action eng hand dealer_up = Inr a"
  shows "\<not> (a = DOUBLE \<and> length (cards hand) > 2)
       \<and> \<not> (a = SPLIT \<and> \<not> is_pair hand)
       \<and> \<not> (a = SURRENDER \<and> length (cards hand) > 2)"
proof (cases "lookup (strategy_tbl eng) hand dealer_up")
  case (Inl e)
  with assms show ?thesis by (simp add: get_baseline_action_def err_bind_def)
next
  case (Inr found)
  show ?thesis
  proof (cases found)
    case None
    with Inr assms have "a = calculate_fallback_action hand dealer_up"
      by (simp add: get_baseline_action_def err_bind_def)
    then show ?thesis
      by (simp add: calculate_fallback_action_def Let_def)
  next
    case (Some b)
    with Inr assms have "a = validate_action b hand"
      by (simp add: get_baseline_action_def err_bind_def)
    then show ?thesis
      by (simp add: validate_action_def)
  qed
qed

lemma decide_without_deviations_validated:
  assumes "decide eng hand dealer_up metrics False = Inr a"
  shows "\<not> (a = DOUBLE \<and> length (cards hand) > 2)
       \<and> \<not> (a = SPLIT \<and> \<not> is_pair hand)
       \<and> \<not> (a = SURRENDER \<and> length (cards hand) > 2)"
proof -
  from assms have "get_baseline_action eng hand dealer_up = Inr a"
    by (cases "get_baseline_action eng hand dealer_up")
       (simp_all add: decide_def decide_with_context_def err_bind_def)
  then show ?thesis by (rule baseline_action_validated)
qed

text \<open>
  C2 (every action returned by \<^verbatim>\<open>decide\<close> is validated). The baseline action goes
  through \<^verbatim>\<open>_validate_action\<close>, the action of a fired deviation does not: with the
  standard deviations, the three-card hard 10 (2, 3, 5) against a dealer ten at true
  count +4 triggers ILL_10v10, and \<^verbatim>\<open>decide\<close> returns DOUBLE on a hand of three cards,
  an action that \<^verbatim>\<open>_validate_action\<close> would have turned into HIT.
\<close>

theorem decide_double_on_three_cards:
  "from_cards [Card_init TWO SPADES, Card_init THREE HEARTS, Card_init FIVE CLUBS] =
     Inr \<lparr>cards = [Card_init TWO SPADES, Card_init THREE HEARTS, Card_init FIVE CLUBS], is_pair = False, is_soft = False, total = 10\<rparr>
   \<and> decide (StrategyEngine_init RuleConfig_default None None)
        \<lparr>cards = [Card_init TWO SPADES, Card_init THREE HEARTS, Card_init FIVE CLUBS], is_pair = False, is_soft = False, total = 10\<rparr>
        (Card_init TEN DIAMONDS) \<lparr>true_count = 4, cards_remaining = 260, running_count = 20, decks_remaining = 5, penetration = 1 / 6\<rparr> True = Inr DOUBLE
   \<and> validate_action DOUBLE
        \<lparr>cards = [Card_init TWO SPADES, Card_init THREE HEARTS, Card_init FIVE CLUBS], is_pair = False, is_soft = False, total = 10\<rparr> = HIT"
  by code_simp

section \<open>Strategy engine: the confidence margin\<close>

text \<open>What the code does: the margin is subtracted from the true count before either
  comparison, so that both directions compare the true count with threshold + margin.\<close>

lemma is_triggered_adjusted:
  "is_triggered dev (true_count (adjusted_metrics metrics m)) =
     (if direction (rule dev) = ABOVE_OR_EQUAL
      then true_count metrics \<ge> threshold (rule dev) + m
      else true_count metrics < threshold (rule dev) + m)"
  by (auto simp: is_triggered_def adjusted_metrics_def)

text \<open>
  C3 (with margin \<open>m\<close>, a BELOW deviation fires only when the true count is below
  threshold - m). In the code a BELOW deviation fires whenever the true count is below
  threshold + m: with margin 1, ILL_12v4 (hit 12 against 4 below a true count of 0) fires
  at a true count of +0.4, which is not below 0 - 1, and \<^verbatim>\<open>decide_with_context\<close> returns
  HIT where the baseline is STAND.
\<close>

theorem below_deviation_fires_within_margin:
  "mk_deviation ''ILL_12v4'' HARD 12 4 0 BELOW HIT 13 \<in> set ILLUSTRIOUS_18
   \<and> is_triggered (mk_deviation ''ILL_12v4'' HARD 12 4 0 BELOW HIT 13)
        (true_count (adjusted_metrics \<lparr>true_count = 2 / 5, cards_remaining = 260, running_count = 2, decks_remaining = 5, penetration = 1 / 6\<rparr> 1))
   \<and> \<not> (true_count \<lparr>true_count = 2 / 5, cards_remaining = 260, running_count = 2, decks_remaining = 5, penetration = 1 / 6\<rparr>
          < threshold (rule (mk_deviation ''ILL_12v4'' HARD 12 4 0 BELOW HIT 13)) - 1)
   \<and> decide_with_context
        (StrategyEngine_init (RuleConfig_default\<lparr>deviation_threshold_margin := 1\<rparr>) None None)
        \<lparr>cards = [Card_init TEN SPADES, Card_init TWO HEARTS], is_pair = False, is_soft = False, total = 12\<rparr>
        (Card_init FOUR DIAMONDS) \<lparr>true_count = 2 / 5, cards_remaining = 260, running_count = 2, decks_remaining = 5, penetration = 1 / 6\<rparr> True
     = Inr \<lparr>action = HIT, baseline_action = STAND, deviation_id = Some ''DEV_H12v4'',
            decision_true_count = 2 / 5\<rparr>"
  by code_simp

section \<open>Strategy lookup: conditional tokens\<close>

text \<open>
  C5 (the lookup resolves Ds, Rh, Rs, Rp, Ph, Pd with the rules). The lookup takes no
  rules, and it upper-cases the token before it reads the action map, whose keys for the
  conditional tokens are in mixed case: the token is not found and the lookup returns
  nothing, so that the engine answers from its hand-coded chart. A table entry Ds for a
  two-card soft 18 against 2 gives STAND, not DOUBLE; an entry Rh for hard 16 against 10
  with surrender allowed gives HIT, not SURRENDER; an entry Ph for a pair of fours against
  5 with double after split allowed gives HIT, not SPLIT.
\<close>

theorem lookup_conditional_token_not_found:
  "lookup [''S_18:02'' \<mapsto> ''Ds'']
      \<lparr>cards = [Card_init ACE SPADES, Card_init SEVEN HEARTS], is_pair = False, is_soft = True, total = 18\<rparr>
      (Card_init TWO DIAMONDS) = Inr None
   \<and> get_baseline_action (StrategyEngine_init RuleConfig_default (Some [''S_18:02'' \<mapsto> ''Ds'']) None)
      \<lparr>cards = [Card_init ACE SPADES, Card_init SEVEN HEARTS], is_pair = False, is_soft = True, total = 18\<rparr>
      (Card_init TWO DIAMONDS) = Inr STAND
   \<and> lookup [''H_16:10'' \<mapsto> ''Rh'']
      \<lparr>cards = [Card_init TEN SPADES, Card_init SIX HEARTS], is_pair = False, is_soft = False, total = 16\<rparr>
      (Card_init TEN DIAMONDS) = Inr None
   \<and> get_baseline_action (StrategyEngine_init RuleConfig_default (Some [''H_16:10'' \<mapsto> ''Rh'']) None)
      \<lparr>cards = [Card_init TEN SPADES, Card_init SIX HEARTS], is_pair = False, is_soft = False, total = 16\<rparr>
      (Card_init TEN DIAMONDS) = Inr HIT
   \<and> lookup [''P_04:05'' \<mapsto> ''Ph'']
      \<lparr>cards = [Card_init FOUR SPADES, Card_init FOUR HEARTS], is_pair = True, is_soft = False, total = 8\<rparr>
      (Card_init FIVE DIAMONDS) = Inr None
   \<and> get_baseline_action (StrategyEngine_init RuleConfig_default (Some [''P_04:05'' \<mapsto> ''Ph'']) None)
      \<lparr>cards = [Card_init FOUR SPADES, Card_init FOUR HEARTS], is_pair = True, is_soft = False, total = 8\<rparr>
      (Card_init FIVE DIAMONDS) = Inr HIT"
  by code_simp

section \<open>Strategy engine: the deviated flag\<close>

lemma hand_key_ok:
  assumes "check_deviation de hand dealer_up g = Inr r"
  shows "\<exists>i. get_triggered_deviation_id hand dealer_up = Inr i"
  using assms
  by (auto simp: check_deviation_def hand_index_key_def get_triggered_deviation_id_def err_bind_def
      Let_def split: sum.splits if_splits)


text \<open>
  C9, as the claim states it, fails where the pipeline drops a fired deviation: a
  SURRENDER deviation is dropped when surrender is not allowed. With surrender not
  allowed and a table whose entry for hard 15 against 10 is SURRENDER, FAB_15v10 fires at
  a true count of 0 and prescribes the baseline action, and the result carries no
  deviation id.
\<close>

theorem fired_surrender_deviation_without_id:
  "check_deviation
      (deviation_engine
         (StrategyEngine_init (RuleConfig_default\<lparr>surrender_allowed := False\<rparr>)
            (Some [''H_15:10'' \<mapsto> ''SURRENDER'']) None))
      \<lparr>cards = [Card_init TEN SPADES, Card_init FIVE HEARTS], is_pair = False, is_soft = False, total = 15\<rparr>
      (Card_init TEN DIAMONDS)
      (adjusted_metrics \<lparr>true_count = 0, cards_remaining = 312, running_count = 0, decks_remaining = 6, penetration = 0\<rparr> 0)
     = Inr (Some SURRENDER)
   \<and> decide_with_context
      (StrategyEngine_init (RuleConfig_default\<lparr>surrender_allowed := False\<rparr>)
         (Some [''H_15:10'' \<mapsto> ''SURRENDER'']) None)
      \<lparr>cards = [Card_init TEN SPADES, Card_init FIVE HEARTS], is_pair = False, is_soft = False, total = 15\<rparr>
      (Card_init TEN DIAMONDS) \<lparr>true_count = 0, cards_remaining = 312, running_count = 0, decks_remaining = 6, penetration = 0\<rparr> True
     = Inr \<lparr>action = SURRENDER, baseline_action = SURRENDER, deviation_id = None,
            decision_true_count = 0\<rparr>"
  by code_simp

text \<open>
  C9, amended. The deviated flag is true exactly when the chosen action differs from the
  baseline action. When the deviation check (at the true count less the margin) fires
  with the action the baseline chooses, and the pipeline takes that deviation (any action
  but SURRENDER; SURRENDER when surrender is allowed and the hand has exactly two cards),
  \<^verbatim>\<open>decide_with_context\<close> returns that action with a deviation id and deviated = false.
  When the check fires with SURRENDER and surrender is not allowed or the hand does not
  have exactly two cards, the deviation is dropped: \<^verbatim>\<open>decide_with_context\<close> returns the
  baseline action, whatever it is, with no deviation id.
\<close>

theorem fired_deviation_kept_or_dropped:
  assumes fired: "check_deviation (deviation_engine eng) hand dealer_up
             (adjusted_metrics metrics (deviation_threshold_margin (config eng))) = Inr (Some a)"
    and base: "get_baseline_action eng hand dealer_up = Inr b"
  shows "(\<forall>r. deviated r = (action r \<noteq> baseline_action r))
       \<and> ((a \<noteq> SURRENDER \<or> (surrender_allowed (config eng) \<and> length (cards hand) = 2)) \<and> a = b
            \<longrightarrow> (\<exists>r. decide_with_context eng hand dealer_up metrics True = Inr r
                   \<and> action r = a \<and> baseline_action r = a
                   \<and> deviation_id r \<noteq> None \<and> \<not> deviated r))
       \<and> (a = SURRENDER \<and> \<not> (surrender_allowed (config eng) \<and> length (cards hand) = 2)
            \<longrightarrow> decide_with_context eng hand dealer_up metrics True
                  = Inr \<lparr>action = b, baseline_action = b, deviation_id = None,
                         decision_true_count = true_count metrics\<rparr>)"
proof (intro conjI impI allI)
  fix r show "deviated r = (action r \<noteq> baseline_action r)" by (simp add: deviated_def)
next
  assume k: "(a \<noteq> SURRENDER \<or> (surrender_allowed (config eng) \<and> length (cards hand) = 2)) \<and> a = b"
  obtain i where i: "get_triggered_deviation_id hand dealer_up = Inr i"
    using hand_key_ok [OF fired] by blast
  from k have base': "get_baseline_action eng hand dealer_up = Inr a" using base by simp
  show "\<exists>r. decide_with_context eng hand dealer_up metrics True = Inr r
             \<and> action r = a \<and> baseline_action r = a
             \<and> deviation_id r \<noteq> None \<and> \<not> deviated r"
  proof (cases "a = SURRENDER")
    case True
    with k have "surrender_allowed (config eng)" "length (cards hand) = 2" by simp_all
    then show ?thesis
      using fired base' i True
      by (simp add: decide_with_context_def surrender_step_def check_deviation_with_margin_def
          check_surrender_deviation_def err_bind_def deviated_def)
  next
    case False
    then show ?thesis
      using fired base' i
      by (cases "a = SPLIT")
         (simp_all add: decide_with_context_def surrender_step_def split_step_def
          decide_split_with_context_def check_deviation_with_margin_def
          check_surrender_deviation_def err_bind_def deviated_def)
  qed
next
  assume d: "a = SURRENDER \<and> \<not> (surrender_allowed (config eng) \<and> length (cards hand) = 2)"
  then have s1: "surrender_step eng hand dealer_up metrics = Inr None"
    by (auto simp: surrender_step_def)
  have cm: "check_deviation_with_margin eng hand dealer_up metrics
              (deviation_threshold_margin (config eng)) False = Inr None"
    using fired d by (simp add: check_deviation_with_margin_def err_bind_def)
  show "decide_with_context eng hand dealer_up metrics True
          = Inr \<lparr>action = b, baseline_action = b, deviation_id = None,
                 decision_true_count = true_count metrics\<rparr>"
    using base s1 cm
    by (simp add: decide_with_context_def split_step_def decide_split_with_context_def
        err_bind_def)
qed


theorem fired_deviation_kept_or_dropped_witness:
  "check_deviation
      (deviation_engine (StrategyEngine_init RuleConfig_default (Some [''H_16:10'' \<mapsto> ''STAND'']) None))
      \<lparr>cards = [Card_init TEN SPADES, Card_init SIX HEARTS], is_pair = False, is_soft = False, total = 16\<rparr>
      (Card_init TEN DIAMONDS)
      (adjusted_metrics \<lparr>true_count = 0, cards_remaining = 312, running_count = 0, decks_remaining = 6, penetration = 0\<rparr> 0)
     = Inr (Some STAND)
   \<and> get_baseline_action (StrategyEngine_init RuleConfig_default (Some [''H_16:10'' \<mapsto> ''STAND'']) None)
      \<lparr>cards = [Card_init TEN SPADES, Card_init SIX HEARTS], is_pair = False, is_soft = False, total = 16\<rparr>
      (Card_init TEN DIAMONDS) = Inr STAND
   \<and> decide_with_context (StrategyEngine_init RuleConfig_default (Some [''H_16:10'' \<mapsto> ''STAND'']) None)
      \<lparr>cards = [Card_init TEN SPADES, Card_init SIX HEARTS], is_pair = False, is_soft = False, total = 16\<rparr>
      (Card_init TEN DIAMONDS) \<lparr>true_count = 0, cards_remaining = 312, running_count = 0, decks_remaining = 6, penetration = 0\<rparr> True
     = Inr \<lparr>action = STAND, baseline_action = STAND, deviation_id = Some ''DEV_H16v10'',
            decision_true_count = 0\<rparr>
   \<and> check_deviation
      (deviation_engine (StrategyEngine_init RuleConfig_default None None))
      \<lparr>cards = [Card_init FIVE SPADES, Card_init FOUR HEARTS, Card_init SIX CLUBS], is_pair = False, is_soft = False, total = 15\<rparr>
      (Card_init TEN DIAMONDS)
      (adjusted_metrics \<lparr>true_count = 0, cards_remaining = 312, running_count = 0, decks_remaining = 6, penetration = 0\<rparr> 0)
     = Inr (Some SURRENDER)
   \<and> length (cards \<lparr>cards = [Card_init FIVE SPADES, Card_init FOUR HEARTS, Card_init SIX CLUBS], is_pair = False, is_soft = False, total = 15\<rparr>) = 3
   \<and> decide_with_context (StrategyEngine_init RuleConfig_default None None)
      \<lparr>cards = [Card_init FIVE SPADES, Card_init FOUR HEARTS, Card_init SIX CLUBS], is_pair = False, is_soft = False, total = 15\<rparr>
      (Card_init TEN DIAMONDS) \<lparr>true_count = 0, cards_remaining = 312, running_count = 0, decks_remaining = 6, penetration = 0\<rparr> True
     = Inr \<lparr>action = HIT, baseline_action = HIT, deviation_id = None,
            decision_true_count = 0\<rparr>
   \<and> \<not> surrender_allowed
        (config (StrategyEngine_init (RuleConfig_default\<lparr>surrender_allowed := False\<rparr>)
                   (Some [''H_15:10'' \<mapsto> ''SURRENDER'']) None))
   \<and> decide_with_context
      (StrategyEngine_init (RuleConfig_default\<lparr>surrender_allowed := False\<rparr>)
         (Some [''H_15:10'' \<mapsto> ''SURRENDER'']) None)
      \<lparr>cards = [Card_init TEN SPADES, Card_init FIVE HEARTS], is_pair = False, is_soft = False, total = 15\<rparr>
      (Card_init TEN DIAMONDS) \<lparr>true_count = 0, cards_remaining = 312, running_count = 0, decks_remaining = 6, penetration = 0\<rparr> True
     = Inr \<lparr>action = SURRENDER, baseline_action = SURRENDER, deviation_id = None,
            decision_true_count = 0\<rparr>"
proof -
  let ?eng = "StrategyEngine_init RuleConfig_default (Some [''H_16:10'' \<mapsto> ''STAND'']) None"
  let ?eng3 = "StrategyEngine_init RuleConfig_default None None"
  let ?eng2 = "StrategyEngine_init (RuleConfig_default\<lparr>surrender_allowed := False\<rparr>)
         (Some [''H_15:10'' \<mapsto> ''SURRENDER'']) None"
  let ?hand = "\<lparr>cards = [Card_init TEN SPADES, Card_init SIX HEARTS], is_pair = False, is_soft = False, total = 16\<rparr>"
  let ?hand3 = "\<lparr>cards = [Card_init FIVE SPADES, Card_init FOUR HEARTS, Card_init SIX CLUBS], is_pair = False, is_soft = False, total = 15\<rparr>"
  let ?hand2 = "\<lparr>cards = [Card_init TEN SPADES, Card_init FIVE HEARTS], is_pair = False, is_soft = False, total = 15\<rparr>"
  let ?g = "\<lparr>true_count = 0, cards_remaining = 312, running_count = 0, decks_remaining = 6, penetration = 0\<rparr>"
  have m: "deviation_threshold_margin (config ?eng) = 0"
    "deviation_threshold_margin (config ?eng3) = 0"
    "deviation_threshold_margin (config ?eng2) = 0"
    by (simp_all add: StrategyEngine_init_def RuleConfig_default_def)
  have fired: "check_deviation (deviation_engine ?eng) ?hand (Card_init TEN DIAMONDS)
      (adjusted_metrics ?g (deviation_threshold_margin (config ?eng))) = Inr (Some STAND)"
    unfolding m by code_simp
  have base: "get_baseline_action ?eng ?hand (Card_init TEN DIAMONDS) = Inr STAND"
    by code_simp
  from fired_deviation_kept_or_dropped [OF fired base]
  obtain r where r: "decide_with_context ?eng ?hand (Card_init TEN DIAMONDS) ?g True = Inr r"
    "deviation_id r \<noteq> None" "\<not> deviated r"
    by auto
  have d: "decide_with_context ?eng ?hand (Card_init TEN DIAMONDS) ?g True
     = Inr \<lparr>action = STAND, baseline_action = STAND, deviation_id = Some ''DEV_H16v10'',
            decision_true_count = 0\<rparr>"
    by code_simp
  have fired3: "check_deviation (deviation_engine ?eng3) ?hand3 (Card_init TEN DIAMONDS)
      (adjusted_metrics ?g (deviation_threshold_margin (config ?eng3))) = Inr (Some SURRENDER)"
    unfolding m by code_simp
  have base3: "get_baseline_action ?eng3 ?hand3 (Card_init TEN DIAMONDS) = Inr HIT"
    by code_simp
  have len3: "length (cards ?hand3) = 3" by simp
  have d3: "decide_with_context ?eng3 ?hand3 (Card_init TEN DIAMONDS) ?g True
     = Inr \<lparr>action = HIT, baseline_action = HIT, deviation_id = None,
            decision_true_count = 0\<rparr>"
    using fired_deviation_kept_or_dropped [OF fired3 base3] len3 by simp
  have fired2: "check_deviation (deviation_engine ?eng2) ?hand2 (Card_init TEN DIAMONDS)
      (adjusted_metrics ?g (deviation_threshold_margin (config ?eng2))) = Inr (Some SURRENDER)"
    unfolding m by code_simp
  have base2: "get_baseline_action ?eng2 ?hand2 (Card_init TEN DIAMONDS) = Inr SURRENDER"
    by code_simp
  have ns2: "\<not> surrender_allowed (config ?eng2)"
    by (simp add: StrategyEngine_init_def RuleConfig_default_def)
  have d2: "decide_with_context ?eng2 ?hand2 (Card_init TEN DIAMONDS) ?g True
     = Inr \<lparr>action = SURRENDER, baseline_action = SURRENDER, deviation_id = None,
            decision_true_count = 0\<rparr>"
    using fired_deviation_kept_or_dropped [OF fired2 base2] ns2 by simp
  show ?thesis
    using fired base d r fired3 len3 d3 ns2 d2 unfolding m by simp
qed

section \<open>Betting engine: caps and rounding\<close>

lemma py_round_le: "x \<le> of_int n \<Longrightarrow> py_round x \<le> n"
proof -
  assume le: "x \<le> of_int n"
  show ?thesis
  proof (cases "x = of_int n")
    case True
    then show ?thesis by (simp add: py_round_def)
  next
    case False
    with le have "x < of_int n" by simp
    then have "\<lfloor>x\<rfloor> < n" by (simp add: floor_less_iff)
    then show ?thesis by (simp add: py_round_def Let_def)
  qed
qed

lemma py_round2_le:
  assumes "x \<le> B" and "B * 100 = of_int n"
  shows "py_round2 x \<le> B"
proof -
  have "x * 100 \<le> of_int n" using assms by simp
  then have "py_round (x * 100) \<le> n" by (rule py_round_le)
  then have "real_of_int (py_round (x * 100)) \<le> of_int n" by simp
  then have "real_of_int (py_round (x * 100)) / 100 \<le> B" using assms(2) by simp
  then show ?thesis by (simp add: py_round2_def)
qed

text \<open>What does hold of the caps: with limits in order, the amount before rounding is
  within the bankroll, the table maximum and the spread cap, so the returned amount is
  within each cap that is a whole number of cents.\<close>

lemma compute_bet_caps_in_cents:
  assumes r: "compute_bet e tc bankroll pen = Inr r"
    and nn: "0 \<le> bankroll"
    and lim: "0 \<le> table_min (be_limits e)" "table_min (be_limits e) \<le> table_max (be_limits e)"
      "1 \<le> bc_max_spread (be_config e)"
    and cents: "bankroll * 100 = of_int n1" "table_max (be_limits e) * 100 = of_int n2"
      "table_min (be_limits e) * bc_max_spread (be_config e) * 100 = of_int n3"
  shows "r \<le> bankroll \<and> r \<le> table_max (be_limits e)
       \<and> r \<le> bc_max_spread (be_config e) * table_min (be_limits e)"
proof -
  have sp: "table_min (be_limits e) \<le> table_min (be_limits e) * bc_max_spread (be_config e)"
    using lim(1,3) by (simp add: mult_le_cancel_left1)
  show ?thesis
  proof (cases "bankroll < table_min (be_limits e)
      \<or> bc_flat_betting (be_config e) \<or> pen > bc_max_betting_penetration (be_config e)")
    case True
    then show ?thesis
      using r nn lim sp by (auto simp: compute_bet_def mult.commute split: if_splits)
  next
    case False
    then have k: "kelly_sized_bet e tc bankroll = Inr r" and b: "table_min (be_limits e) \<le> bankroll"
      using r by (auto simp: compute_bet_def)
    from k obtain adv where adv:
      "estimate_advantage (be_estimator e) tc (bc_num_decks (be_config e)) = Inr adv"
      by (cases "estimate_advantage (be_estimator e) tc (bc_num_decks (be_config e))")
         (simp_all add: kelly_sized_bet_def err_bind_def)
    from k adv obtain bet0 where
      bet0: "calculate_bet_amount (be_kelly e) adv bankroll (Some (be_limits e)) = Inr bet0"
      by (cases "calculate_bet_amount (be_kelly e) adv bankroll (Some (be_limits e))")
         (simp_all add: kelly_sized_bet_def err_bind_def)
    from k adv bet0 have res:
      "(let max_bet = table_min (be_limits e) * bc_max_spread (be_config e);
             bet1 = min bet0 max_bet;
             bet = min bet1 bankroll
         in if bet < table_min (be_limits e) then
              (if adv > 0 \<and> bankroll \<ge> table_min (be_limits e)
               then Inr (table_min (be_limits e))
               else Inr (if bankroll \<ge> table_min (be_limits e) then table_min (be_limits e) else 0))
            else Inr (py_round2 bet)) = (Inr r :: py_error + real)"
      by (simp add: kelly_sized_bet_def err_bind_def)
    have bet0_max: "bet0 \<le> table_max (be_limits e)"
      using bet0 lim(1,2) b
      by (auto simp: calculate_bet_amount_def err_bind_def clamp_def Let_def
          split: if_splits sum.splits)
    define bet where "bet = min (min bet0 (table_min (be_limits e) * bc_max_spread (be_config e))) bankroll"
    have le: "bet \<le> bankroll" "bet \<le> table_max (be_limits e)"
      "bet \<le> table_min (be_limits e) * bc_max_spread (be_config e)"
      using bet0_max by (simp_all add: bet_def min_le_iff_disj)
    from res have "r = table_min (be_limits e) \<or> r = py_round2 bet"
      using b by (auto simp: Let_def bet_def split: if_splits)
    then show ?thesis
    proof
      assume "r = table_min (be_limits e)"
      then show ?thesis using b lim sp by (simp add: mult.commute)
    next
      assume "r = py_round2 bet"
      then show ?thesis
        using py_round2_le [OF le(1) cents(1)] py_round2_le [OF le(2) cents(2)]
          py_round2_le [OF le(3) cents(3)]
        by (simp add: mult.commute)
    qed
  qed
qed

text \<open>
  C6 (the returned bet never exceeds the bankroll). The caps are applied before the
  amount is rounded to two decimals, and the rounding can go up: for the default engine,
  a true count of 1000 and a bankroll of 50.0078125 the capped amount is the bankroll
  itself, and \<^verbatim>\<open>compute_bet\<close> returns 50.01, more than the bankroll.
\<close>

theorem rounded_bet_exceeds_bankroll:
  "err_bind (BettingEngine_init None None) (\<lambda>e. compute_bet e 1000 (50 + 1 / 128) 0)
     = Inr (5001 / 100)
   \<and> (50 + 1 / 128 :: real) < 5001 / 100"
  by code_simp


text \<open>
  C7. With flat betting off and a bankroll of at least the table minimum, a penetration
  strictly above \<^verbatim>\<open>max_betting_penetration\<close> returns exactly the table minimum, and a
  penetration equal to it returns the Kelly-sized amount of steps 1 to 5, which still
  depends on the count.
\<close>

theorem defensive_cutoff_boundary:
  assumes "\<not> bc_flat_betting (be_config e)" and "table_min (be_limits e) \<le> bankroll"
  shows "(bc_max_betting_penetration (be_config e) < pen \<longrightarrow>
            compute_bet e tc bankroll pen = Inr (table_min (be_limits e)))
       \<and> compute_bet e tc bankroll (bc_max_betting_penetration (be_config e)) =
           kelly_sized_bet e tc bankroll"
  using assms by (simp add: compute_bet_def)

theorem defensive_cutoff_boundary_witness:
  "\<exists>e. BettingEngine_init None None = Inr e
     \<and> \<not> bc_flat_betting (be_config e) \<and> table_min (be_limits e) \<le> 5000
     \<and> bc_max_betting_penetration (be_config e) = 85 / 100
     \<and> compute_bet e 4 5000 (851 / 1000) = Inr 10
     \<and> compute_bet e 4 5000 (85 / 100) = Inr (744 / 25)
     \<and> compute_bet e 8 5000 (85 / 100) = Inr (1736 / 25)
     \<and> kelly_sized_bet e 4 5000 = Inr (744 / 25)"
proof -
  define e where "e = projr (BettingEngine_init None None)"
  have init: "BettingEngine_init None None = Inr e"
    unfolding e_def by code_simp
  have flat: "\<not> bc_flat_betting (be_config e)"
    unfolding e_def by code_simp
  have tm: "table_min (be_limits e) = 10"
    unfolding e_def by code_simp
  have mp: "bc_max_betting_penetration (be_config e) = 85 / 100"
    unfolding e_def by code_simp
  have k4: "kelly_sized_bet e 4 5000 = Inr (744 / 25)"
    unfolding e_def by code_simp
  have k8: "compute_bet e 8 5000 (85 / 100) = Inr (1736 / 25)"
    unfolding e_def by code_simp
  have "compute_bet e 4 5000 (851 / 1000) = Inr 10
      \<and> compute_bet e 4 5000 (85 / 100) = Inr (744 / 25)"
    using defensive_cutoff_boundary [of e 5000 "851 / 1000" 4] flat tm mp k4 by simp
  then show ?thesis
    using init flat tm mp k4 k8 by (intro exI [of _ e]) simp
qed


section \<open>Simulation driver: the wager\<close>

text \<open>
  C1 (with \<^verbatim>\<open>use_counting = false\<close> the bet is \<^verbatim>\<open>compute_bet(0.0, bankroll, penetration)\<close>).
  The zeroed true count only reaches \<^verbatim>\<open>_play_hand\<close>, where it is stored in the hand
  result; the bet comes from \<^verbatim>\<open>agent.get_bet\<close>, which reads the real true count of the
  State Manager. In a run with counting off and Kelly betting, on a shoe that starts with
  its low cards, the first hand leaves a bankroll of 9990 and a real true count of
  156/101; the bet at a true count of 0 would be 10, and the second hand is played with a
  bet of 14.76.
\<close>

theorem bet_follows_real_count_without_counting:
  "err_bind
     (simulator_agent
        (Simulator_init None None (Some (SimulatorConfig_default\<lparr>use_counting := False\<rparr>))
               low_cards_first (\<lambda>k. 0)) None)
     (\<lambda>ag.
       err_bind
         (run_loop
            (Simulator_init None None (Some (SimulatorConfig_default\<lparr>use_counting := False\<rparr>))
               low_cards_first (\<lambda>k. 0))
            1 (initial_state
                 (simulator_shoe
                    (Simulator_init None None (Some (SimulatorConfig_default\<lparr>use_counting := False\<rparr>))
               low_cards_first (\<lambda>k. 0)))
                 ag 10000))
         (\<lambda>st1.
           err_bind (agent_get_metrics (rs_agent st1)) (\<lambda>metrics.
             err_bind (compute_bet (betting_engine (rs_agent st1)) 0 (rs_bankroll st1)
                         (penetration metrics)) (\<lambda>bet_at_zero.
               err_bind
                 (run_loop
                    (Simulator_init None None (Some (SimulatorConfig_default\<lparr>use_counting := False\<rparr>))
               low_cards_first (\<lambda>k. 0))
                    2 (initial_state
                         (simulator_shoe
                            (Simulator_init None None (Some (SimulatorConfig_default\<lparr>use_counting := False\<rparr>))
               low_cards_first (\<lambda>k. 0)))
                         ag 10000))
                 (\<lambda>st2.
                   Inr (use_counting
                          (sim_config
                             (Simulator_init None None (Some (SimulatorConfig_default\<lparr>use_counting := False\<rparr>))
               low_cards_first (\<lambda>k. 0))),
                        rs_bankroll st1, true_count metrics, bet_at_zero,
                        map bet_size (rs_hand_results st2),
                        map actions_taken (rs_hand_results st2),
                        map hand_true_count (rs_hand_results st2)))))))
   = Inr (False, 9990, 156 / 101, 10, [10, 369 / 25], [[HIT, HIT, STAND], [HIT, STAND]], [0, 0])"
  by code_simp

section \<open>Simulation driver: the end of the bankroll\<close>
























end
